theory Spec2Isabelle
  imports Complex_Main "HOL-Library.Monad_Syntax"
begin

section \<open>Numbers\<close>

text \<open>
  The program computes with JavaScript numbers. They are modelled by the real numbers:
  rounding and overflow are not modelled. An operation whose JavaScript result would not be
  a finite number (a division or a remainder by zero, \<open>Math.acos\<close> outside \<open>[-1, 1]\<close>,
  \<open>Math.sqrt\<close> of a negative number) returns \<open>None\<close>, and what the program would go on to
  compute from such a value is not followed: the computation that uses it is \<open>None\<close> as a
  whole. So \<open>Some v\<close> says that every operation on the way stayed inside its domain and
  that the result is \<open>v\<close>; \<open>None\<close> says only that one did not.
\<close>

definition js_div :: "real \<Rightarrow> real \<Rightarrow> real option" where
  "js_div a b = (if b = 0 then None else Some (a / b))"

definition truncate :: "real \<Rightarrow> int" where
  "truncate q = (if 0 \<le> q then \<lfloor>q\<rfloor> else \<lceil>q\<rceil>)"

definition js_mod :: "real \<Rightarrow> real \<Rightarrow> real option" where
  \<comment> \<open>\<open>a % b\<close>: the remainder has the sign of the dividend.\<close>
  "js_mod a b = (if b = 0 then None else Some (a - b * of_int (truncate (a / b))))"

definition js_acos :: "real \<Rightarrow> real option" where
  "js_acos v = (if - 1 \<le> v \<and> v \<le> 1 then Some (arccos v) else None)"

definition js_sqrt :: "real \<Rightarrow> real option" where
  "js_sqrt v = (if 0 \<le> v then Some (sqrt v) else None)"

definition js_floor :: "real \<Rightarrow> real" where
  "js_floor v = of_int \<lfloor>v\<rfloor>"

definition js_atan2 :: "real \<Rightarrow> real \<Rightarrow> real" where
  \<comment> \<open>\<open>Math.atan2(a, b)\<close>: the angle of the point \<open>(b, a)\<close>; 0 at the origin.\<close>
  "js_atan2 a b =
     (if 0 < b then arctan (a / b)
      else if b < 0 then (if 0 \<le> a then arctan (a / b) + pi else arctan (a / b) - pi)
      else if 0 < a then pi / 2
      else if a < 0 then - (pi / 2)
      else 0)"

datatype Vector3 = Vector3 (vx: real) (vy: real) (vz: real)

section \<open>Pattern definitions\<close>

text \<open>
  A generator is called as \<open>patternFn(i, total)\<close>; the parameter \<open>total\<close> is written
  \<open>total'\<close> here. Its third argument gives the results of the calls of \<open>Math.random()\<close>
  that this invocation makes, in the order in which it makes them: \<open>rnd 0\<close> is the first.
\<close>

type_synonym generator = "nat \<Rightarrow> nat \<Rightarrow> (nat \<Rightarrow> real) \<Rightarrow> Vector3 option"

definition sphere :: generator where
  "sphere i total' rnd = do {
     q \<leftarrow> js_div (2 * real i) (real total');
     phi \<leftarrow> js_acos (- 1 + q);
     s \<leftarrow> js_sqrt (real total' * pi);
     let theta = s * phi;
     let r = 5;
     Some (Vector3 (r * cos theta * sin phi) (r * sin theta * sin phi) (r * cos phi))
   }"

definition cube :: generator where
  "cube i total' rnd = do {
     let size = 8;
     let perSide = root 3 (real total');
     m1 \<leftarrow> js_mod (real i) perSide;
     d1 \<leftarrow> js_div m1 perSide;
     let x = (d1 - 0.5) * size;
     q2 \<leftarrow> js_div (real i) perSide;
     m2 \<leftarrow> js_mod (js_floor q2) perSide;
     d2 \<leftarrow> js_div m2 perSide;
     let y = (d2 - 0.5) * size;
     q3 \<leftarrow> js_div (real i) (perSide * perSide);
     d3 \<leftarrow> js_div (js_floor q3) perSide;
     let z = (d3 - 0.5) * size;
     Some (Vector3 x y z)
   }"

definition torus :: generator where
  "torus i total' rnd = do {
     let R = 4; let r = 1.5;
     q \<leftarrow> js_div (real i) (real total');
     let u = q * pi * 2 * 8;
     m \<leftarrow> js_mod (real i * 13) (real total');
     d \<leftarrow> js_div m (real total');
     let v = d * pi * 2;
     Some (Vector3 ((R + r * cos v) * cos u) ((R + r * cos v) * sin u) (r * sin v))
   }"

definition spiral :: generator where
  "spiral i total' rnd = do {
     q \<leftarrow> js_div (real i) (real total');
     let t = q * 20;
     let r = t * 0.3;
     Some (Vector3 (r * cos (t * 2)) ((q - 0.5) * 10) (r * sin (t * 2)))
   }"

definition heart :: generator where
  "heart i total' rnd = do {
     q \<leftarrow> js_div (real i) (real total');
     let t = q * pi * 2;
     m \<leftarrow> js_mod (real i * 7) (real total');
     s \<leftarrow> js_div m (real total');
     let scale = 0.4 + s * 0.6;
     let x = 16 * (sin t) ^ 3 * scale * 0.3;
     let y = (13 * cos t - 5 * cos (2 * t) - 2 * cos (3 * t) - cos (4 * t)) * scale * 0.3;
     let z = (rnd 0 - 0.5) * 2 * scale;
     Some (Vector3 x y z)
   }"

definition galaxy :: generator where
  "galaxy i total' rnd = do {
     let arms = 3;
     arm \<leftarrow> js_mod (real i) arms;
     q \<leftarrow> js_div (real i) arms;
     ta \<leftarrow> js_div (real total') arms;
     posInArm \<leftarrow> js_div (js_floor q) ta;
     da \<leftarrow> js_div (pi * 2) arms;
     let angle = arm * da + posInArm * 4;
     let r = posInArm * 7;
     let spread = posInArm * 1.5;
     Some (Vector3 (r * cos angle + (rnd 0 - 0.5) * spread)
                   ((rnd 1 - 0.5) * spread * 0.3)
                   (r * sin angle + (rnd 2 - 0.5) * spread))
   }"

definition dna :: generator where
  "dna i total' rnd = do {
     q \<leftarrow> js_div (real i) (real total');
     let t = q * pi * 8;
     strand \<leftarrow> js_mod (real i) 2;
     let r = 2;
     let offset = strand * pi;
     Some (Vector3 (r * cos (t + offset)) ((q - 0.5) * 15) (r * sin (t + offset)))
   }"

definition tornado :: generator where
  "tornado i total' rnd = do {
     q \<leftarrow> js_div (real i) (real total');
     let height = q * 12 - 6;
     let radius = (1 - \<bar>height\<bar> / 6) * 4 + 0.5;
     let angle = q * pi * 20 + height;
     Some (Vector3 (radius * cos angle) height (radius * sin angle))
   }"

definition pyramid :: generator where
  "pyramid i total' rnd = do {
     q \<leftarrow> js_div (real i) (real total');
     sq \<leftarrow> js_sqrt q;
     let level = js_floor (sq * 10);
     let size = 8 - level * 0.8;
     let y = level * 0.8 - 4;
     angle \<leftarrow> js_mod (real i * 2.39996) (pi * 2);
     let r = rnd 0 * size;
     Some (Vector3 (r * cos angle) y (r * sin angle))
   }"

definition cylinder :: generator where
  "cylinder i total' rnd = do {
     q \<leftarrow> js_div (real i) (real total');
     let angle = q * pi * 40;
     m \<leftarrow> js_mod (real i * 17) (real total');
     d \<leftarrow> js_div m (real total');
     let height = (d - 0.5) * 10;
     let r = 3;
     Some (Vector3 (r * cos angle) height (r * sin angle))
   }"

definition cone :: generator where
  "cone i total' rnd = do {
     t \<leftarrow> js_div (real i) (real total');
     let height = t * 10 - 5;
     let radius = (1 - t) * 4;
     let angle = real i * 2.39996;
     Some (Vector3 (radius * cos angle) height (radius * sin angle))
   }"

definition trefoilKnot :: generator where
  "trefoilKnot i total' rnd = do {
     q \<leftarrow> js_div (real i) (real total');
     let t = q * pi * 2;
     let scale = 2;
     Some (Vector3 (scale * (sin t + 2 * sin (2 * t)))
                   (scale * (cos t - 2 * cos (2 * t)))
                   (scale * (- sin (3 * t))))
   }"

definition torusKnot :: generator where
  "torusKnot i total' rnd = do {
     let p = 2; let q = 3;
     d \<leftarrow> js_div (real i) (real total');
     let t = d * pi * 2 * 3;
     let r = 0.5 * (2 + cos (q * t));
     Some (Vector3 (r * cos (p * t) * 2.5) (r * sin (p * t) * 2.5) (- sin (q * t) * 2))
   }"

definition star :: generator where
  "star i total' rnd = do {
     let points = 5;
     q \<leftarrow> js_div (real i) (real total');
     let angle = q * pi * 2 * points;
     let r = 3 + 2 * sin (angle * 2.5);
     m \<leftarrow> js_mod (real i * 7) 5;
     layer \<leftarrow> js_div (js_floor m) 5;
     Some (Vector3 (r * cos angle) ((layer - 0.5) * 4) (r * sin angle))
   }"

definition explosion :: generator where
  "explosion i total' rnd = do {
     q \<leftarrow> js_div (2 * real i) (real total');
     phi \<leftarrow> js_acos (- 1 + q);
     s \<leftarrow> js_sqrt (real total' * pi);
     let theta = s * phi;
     let r = 2 + rnd 0 * 5;
     Some (Vector3 (r * cos theta * sin phi) (r * sin theta * sin phi) (r * cos phi))
   }"

definition wave :: generator where
  "wave i total' rnd = do {
     gridSize \<leftarrow> js_sqrt (real total');
     m \<leftarrow> js_mod (real i) gridSize;
     d \<leftarrow> js_div m gridSize;
     let x = d * 16 - 8;
     q \<leftarrow> js_div (real i) gridSize;
     e \<leftarrow> js_div (js_floor q) gridSize;
     let z = e * 16 - 8;
     let y = sin (x * 0.5) * cos (z * 0.5) * 3;
     Some (Vector3 x y z)
   }"

definition ripple :: generator where
  "ripple i total' rnd = do {
     gridSize \<leftarrow> js_sqrt (real total');
     m \<leftarrow> js_mod (real i) gridSize;
     d \<leftarrow> js_div m gridSize;
     let x = d * 16 - 8;
     q \<leftarrow> js_div (real i) gridSize;
     e \<leftarrow> js_div (js_floor q) gridSize;
     let z = e * 16 - 8;
     dist \<leftarrow> js_sqrt (x * x + z * z);
     let y = sin (dist * 1.5) * 2 * exp (- dist * 0.1);
     Some (Vector3 x y z)
   }"

definition butterfly :: generator where
  "butterfly i total' rnd = do {
     q \<leftarrow> js_div (real i) (real total');
     let t = q * pi * 12;
     let r = exp (cos t) - 2 * cos (4 * t) + (sin (t / 12)) ^ 5;
     Some (Vector3 (sin t * r * 1.5) (cos t * r * 1.5) ((rnd 0 - 0.5) * 2))
   }"

definition rose :: generator where
  "rose i total' rnd = do {
     let k = 5;
     q \<leftarrow> js_div (real i) (real total');
     let theta = q * pi * 6;
     let r = 5 * cos (k * theta);
     m \<leftarrow> js_mod (real i * 3) (real total');
     layer \<leftarrow> js_div m (real total');
     Some (Vector3 (r * cos theta) ((layer - 0.5) * 3) (r * sin theta))
   }"

definition atom :: generator where
  "atom i total' rnd = do {
     let orbits = 3;
     orbit \<leftarrow> js_mod (real i) orbits;
     q \<leftarrow> js_div (real i) (real total');
     let angle = q * pi * 2 * 10;
     let r = 4;
     let tilt = orbit * (pi / 3);
     if real i < real total' * 0.1
     then Some (Vector3 ((rnd 0 - 0.5) * 1.5) ((rnd 1 - 0.5) * 1.5) ((rnd 2 - 0.5) * 1.5))
     else Some (Vector3 (r * cos angle) (r * sin angle * cos tilt) (r * sin angle * sin tilt))
   }"

definition vortex :: generator where
  "vortex i total' rnd = do {
     t \<leftarrow> js_div (real i) (real total');
     let angle = t * pi * 10;
     let r = t * 6;
     let height = sin (t * pi) * 8 - 4;
     Some (Vector3 (r * cos angle) height (r * sin angle))
   }"

definition shell :: generator where
  "shell i total' rnd = do {
     q \<leftarrow> js_div (real i) (real total');
     let t = q * pi * 6;
     let a = 0.2; let b = 0.1;
     let r = a * exp (b * t);
     Some (Vector3 (r * cos t) (r * sin t) (t * 0.3 - 3))
   }"

definition infinity :: generator where
  "infinity i total' rnd = do {
     q \<leftarrow> js_div (real i) (real total');
     let t = q * pi * 2;
     let scale = 4;
     m \<leftarrow> js_mod (real i * 5) (real total');
     d \<leftarrow> js_div m (real total');
     let layer = (d - 0.5) * 2;
     x \<leftarrow> js_div (scale * cos t) (1 + sin t * sin t);
     z \<leftarrow> js_div (scale * sin t * cos t) (1 + sin t * sin t);
     Some (Vector3 x layer z)
   }"

definition brain :: generator where
  "brain i total' rnd = do {
     q \<leftarrow> js_div (real i) (real total');
     let u = q * pi * 2;
     m \<leftarrow> js_mod (real i * 7) (real total');
     d \<leftarrow> js_div m (real total');
     let v = d * pi;
     let r = 4 + sin (u * 8) * 0.5 + sin (v * 6) * 0.3;
     Some (Vector3 (r * sin v * cos u) (r * cos v) (r * sin v * sin u))
   }"

definition diamond :: generator where
  "diamond i total' rnd = do {
     t \<leftarrow> js_div (real i) (real total');
     let y = (if t < 0.5 then t * 10 - 2.5 else (1 - t) * 10 - 2.5 + 5);
     let radius = (if t < 0.5 then t * 2 * 4 else (1 - t) * 2 * 4);
     let angle = real i * 2.39996;
     Some (Vector3 (radius * cos angle) y (radius * sin angle))
   }"

definition centers :: "Vector3 list" where
  "centers = [Vector3 0 0 0, Vector3 3 1 0, Vector3 (- 3) 0.5 1,
              Vector3 1.5 (- 0.5) (- 2), Vector3 (- 1.5) 1.5 2]"

definition cloud :: generator where
  "cloud i total' rnd = do {
     part \<leftarrow> js_div (real total') 5;
     q \<leftarrow> js_div (real i) part;
     let cluster = \<lfloor>q\<rfloor>;
     \<comment> \<open>\<open>centers[cluster] || centers[0]\<close>: an index outside the array reads \<open>undefined\<close>\<close>
     let c = (if 0 \<le> cluster \<and> cluster < int (length centers)
              then centers ! nat cluster else centers ! 0);
     let spread = 2.5;
     Some (Vector3 (vx c + (rnd 0 - 0.5) * spread)
                   (vy c + (rnd 1 - 0.5) * spread * 0.5)
                   (vz c + (rnd 2 - 0.5) * spread))
   }"

definition lightning :: generator where
  "lightning i total' rnd = do {
     part \<leftarrow> js_div (real total') 5;
     q \<leftarrow> js_div (real i) part;
     let branch = js_floor q;
     m \<leftarrow> js_mod (real i) part;
     t \<leftarrow> js_div m part;
     da \<leftarrow> js_div (pi * 2) 5;
     let baseAngle = branch * da;
     let jitter = (rnd 0 - 0.5) * t * 3;
     Some (Vector3 (sin baseAngle * t * 6 + jitter) (5 - t * 10) (cos baseAngle * t * 6 + jitter))
   }"

definition snowflake :: generator where
  "snowflake i total' rnd = do {
     let arms = 6;
     arm \<leftarrow> js_mod (real i) arms;
     q \<leftarrow> js_div (real i) arms;
     ta \<leftarrow> js_div (real total') arms;
     posInArm \<leftarrow> js_div (js_floor q) ta;
     da \<leftarrow> js_div (pi * 2) arms;
     let angle = arm * da;
     par \<leftarrow> js_mod (js_floor (posInArm * 3)) 2;
     let branchAngle = angle + (if par = 0 then 0.3 else - 0.3) * posInArm;
     let r = posInArm * 5;
     Some (Vector3 (r * cos branchAngle) ((rnd 0 - 0.5) * 0.5) (r * sin branchAngle))
   }"

definition orbit :: generator where
  "orbit i total' rnd = do {
     let satellites = 4;
     sat \<leftarrow> js_mod (real i) satellites;
     q \<leftarrow> js_div (real i) (real total');
     let mainOrbit = q * pi * 2;
     if real i < real total' * 0.15
     then do {
       let r = rnd 0 * 1.5;
       let theta = rnd 1 * pi * 2;
       let phi = rnd 2 * pi;
       Some (Vector3 (r * sin phi * cos theta) (r * sin phi * sin theta) (r * cos phi))
     }
     else do {
       let orbitRadius = 3 + sat * 1.5;
       let tilt = sat * 0.3;
       Some (Vector3 (orbitRadius * cos (mainOrbit + sat))
                     (orbitRadius * sin (mainOrbit + sat) * sin tilt)
                     (orbitRadius * sin (mainOrbit + sat) * cos tilt))
     }
   }"

text \<open>The object \<open>PATTERNS\<close>: its own properties, in the order of the source.\<close>

definition PATTERNS :: "(string \<times> generator) list" where
  "PATTERNS =
     [(''sphere'', sphere), (''cube'', cube), (''torus'', torus), (''spiral'', spiral),
      (''heart'', heart), (''galaxy'', galaxy), (''dna'', dna), (''tornado'', tornado),
      (''pyramid'', pyramid), (''cylinder'', cylinder), (''cone'', cone),
      (''trefoilKnot'', trefoilKnot), (''torusKnot'', torusKnot), (''star'', star),
      (''explosion'', explosion), (''wave'', wave), (''ripple'', ripple),
      (''butterfly'', butterfly), (''rose'', rose), (''atom'', atom), (''vortex'', vortex),
      (''shell'', shell), (''infinity'', infinity), (''brain'', brain),
      (''diamond'', diamond), (''cloud'', cloud), (''lightning'', lightning),
      (''snowflake'', snowflake), (''orbit'', orbit)]"

definition PATTERN_LIST :: "string list" where
  "PATTERN_LIST = map fst PATTERNS"

text \<open>
  \<open>PATTERNS\<close> is an object literal, so a property read \<open>PATTERNS[name]\<close> that finds no own
  property goes on to \<open>Object.prototype\<close>. These are the properties found there; each of
  them is a function or an object, hence truthy.
\<close>

definition Object_prototype :: "string list" where
  "Object_prototype =
     [''constructor'', ''hasOwnProperty'', ''isPrototypeOf'', ''propertyIsEnumerable'',
      ''toLocaleString'', ''toString'', ''valueOf'', ''__proto__'',
      ''__defineGetter__'', ''__defineSetter__'', ''__lookupGetter__'', ''__lookupSetter__'']"

datatype property = Generator generator | Builtin string | Undefined

definition PATTERNS_get :: "string \<Rightarrow> property" where
  "PATTERNS_get name =
     (case map_of PATTERNS name of
        Some patternFn \<Rightarrow> Generator patternFn
      | None \<Rightarrow> if name \<in> set Object_prototype then Builtin name else Undefined)"

section \<open>Configuration\<close>

record config =
  particleCount :: nat
  particleSize :: real
  morphSpeed :: real
  rotationSpeed :: real
  gestureSmoothing :: real
  dispersionMultiplier :: real

definition CONFIG :: config where
  "CONFIG = \<lparr>particleCount = 30000, particleSize = 1.2, morphSpeed = 1.5,
             rotationSpeed = 0.002, gestureSmoothing = 0.1, dispersionMultiplier = 4.0\<rparr>"

section \<open>Particle system\<close>

text \<open>
  The two position attributes are flat arrays of \<open>3 * particleCount\<close> numbers. A typed
  array ignores a write outside its bounds, as \<open>xs[i := v]\<close> does. The rounding of a
  stored number to single precision is not modelled.
\<close>

record ParticleSystem =
  count :: nat
  currentPattern :: string
  morphStartTime :: real
  sourcePositions :: "real list"
  targetPositions :: "real list"

function copy_targets :: "nat \<Rightarrow> real list \<Rightarrow> real list \<Rightarrow> real list" where
  "copy_targets i tgt src =
     (if i < length tgt then copy_targets (Suc i) tgt (src[i := tgt ! i]) else src)"
  by pat_completeness auto
termination
  by (relation "measure (\<lambda>(i, tgt, src). length tgt - i)") auto

declare copy_targets.simps [simp del]

text \<open>
  The loop that generates the new targets. \<open>rnd i\<close> gives the random numbers drawn by the
  call for particle \<open>i\<close>. Where a generator leaves the finite numbers the loop of the
  program goes on with a buffer that holds a value the model has no number for; the model
  stops there and says so.
\<close>

datatype filled = Filled "real list" | NonFinite nat "real list"

function fill_targets ::
  "generator \<Rightarrow> nat \<Rightarrow> (nat \<Rightarrow> nat \<Rightarrow> real) \<Rightarrow> nat \<Rightarrow> real list \<Rightarrow> filled" where
  "fill_targets patternFn n rnd i tgt =
     (if i < n then
        (case patternFn i n (rnd i) of
           None \<Rightarrow> NonFinite i tgt
         | Some pos \<Rightarrow>
             fill_targets patternFn n rnd (Suc i)
               (tgt[i * 3 := vx pos, i * 3 + 1 := vy pos, i * 3 + 2 := vz pos]))
      else Filled tgt)"
  by pat_completeness auto
termination
  by (relation "measure (\<lambda>(patternFn, n, rnd, i, tgt). n - i)") auto

declare fill_targets.simps [simp del]

text \<open>
  \<open>setPattern\<close> returns nothing, on every path. The outcome is the state it leaves:
  \<open>Returned\<close> when it ran to its end or left through the guard, \<open>Stopped_NonFinite\<close> as
  explained above, and \<open>Stopped_HostCall\<close> when the callee is a built-in of the host,
  whose behaviour is not part of this program: the state is the one at the call.
\<close>

datatype outcome =
    Returned ParticleSystem
  | Stopped_NonFinite nat ParticleSystem
  | Stopped_HostCall string ParticleSystem

definition setPattern ::
  "string \<Rightarrow> real \<Rightarrow> (nat \<Rightarrow> nat \<Rightarrow> real) \<Rightarrow> ParticleSystem \<Rightarrow> outcome" where
  "setPattern patternName now rnd s =
     (case PATTERNS_get patternName of
        Undefined \<Rightarrow> Returned s
      | Generator patternFn \<Rightarrow>
          (let s1 = s\<lparr>currentPattern := patternName\<rparr>;
               s2 = s1\<lparr>sourcePositions := copy_targets 0 (targetPositions s1) (sourcePositions s1)\<rparr>
           in case fill_targets patternFn (count s2) rnd 0 (targetPositions s2) of
                NonFinite i tgt \<Rightarrow> Stopped_NonFinite i (s2\<lparr>targetPositions := tgt\<rparr>)
              | Filled tgt \<Rightarrow> Returned (s2\<lparr>targetPositions := tgt, morphStartTime := now\<rparr>))
      | Builtin name \<Rightarrow>
          (let s1 = s\<lparr>currentPattern := patternName\<rparr>;
               s2 = s1\<lparr>sourcePositions := copy_targets 0 (targetPositions s1) (sourcePositions s1)\<rparr>
           in if 0 < count s2 then Stopped_HostCall name s2
              else Returned (s2\<lparr>morphStartTime := now\<rparr>)))"

text \<open>The constructor: \<open>createParticles\<close> allocates zeroed arrays, then \<open>setPattern('sphere')\<close>.\<close>

definition createParticles :: "config \<Rightarrow> ParticleSystem" where
  "createParticles cfg =
     \<lparr>count = particleCount cfg, currentPattern = ''sphere'', morphStartTime = 0,
      sourcePositions = replicate (particleCount cfg * 3) 0,
      targetPositions = replicate (particleCount cfg * 3) 0\<rparr>"

definition ParticleSystem_new :: "config \<Rightarrow> real \<Rightarrow> (nat \<Rightarrow> nat \<Rightarrow> real) \<Rightarrow> outcome" where
  "ParticleSystem_new cfg now rnd = setPattern ''sphere'' now rnd (createParticles cfg)"

text \<open>
  The particle count slider delivers a natural number. The buffers are not reallocated, so
  \<open>count\<close> never exceeds the number of points they hold.
\<close>

definition updateParticleCount :: "config \<Rightarrow> nat \<Rightarrow> ParticleSystem \<Rightarrow> ParticleSystem" where
  "updateParticleCount cfg newCount s = s\<lparr>count := min newCount (particleCount cfg)\<rparr>"

text \<open>The morph factor that \<open>update\<close> writes into the uniforms at time \<open>time\<close>.\<close>

definition morphFactor :: "config \<Rightarrow> ParticleSystem \<Rightarrow> real \<Rightarrow> real option" where
  "morphFactor cfg s time = do {
     let elapsed = time - morphStartTime s;
     q \<leftarrow> js_div elapsed (morphSpeed cfg);
     Some (min 1.0 q)
   }"

text \<open>Reading one coordinate of a point, and a source of random numbers that is constant.\<close>

definition component :: "Vector3 \<Rightarrow> nat \<Rightarrow> real" where
  "component pos k = (if k = 0 then vx pos else if k = 1 then vy pos else vz pos)"

definition constant_random :: "real \<Rightarrow> nat \<Rightarrow> nat \<Rightarrow> real" where
  "constant_random c i k = c"

section \<open>Gesture detection\<close>

text \<open>
  A hand is the detector's sequence of 21 landmarks, read at fixed indices between 0 and
  20: a function from the index to the landmark. The coordinates are finite numbers, every
  square root below is taken of a sum of squares and the only divisor is at least 0.001,
  so these computations stay inside the real numbers. The field \<open>gestureHistory\<close> is
  never read or written after the constructor and is left out.
\<close>

datatype Landmark = Landmark (lx: real) (ly: real) (lz: real)

type_synonym hand = "nat \<Rightarrow> Landmark"

record results =
  multiHandLandmarks :: "hand list option"

datatype swipe = SwipeLeft | SwipeRight

datatype Position = Position (px: real) (py: real)

record GestureDetector =
  handOpenness :: real
  targetOpenness :: real
  handRotation :: real
  targetRotation :: real
  handPosition :: Position
  targetPosition :: Position
  pinchStrength :: real
  targetPinch :: real
  handPresent :: bool
  swipeDirection :: "swipe option"
  lastWristX :: real
  twoHandsPresent :: bool
  handsDistance :: real
  targetHandsDistance :: real

definition GestureDetector_new :: GestureDetector where
  "GestureDetector_new =
     \<lparr>handOpenness = 0.5, targetOpenness = 0.5, handRotation = 0, targetRotation = 0,
      handPosition = Position 0.5 0.5, targetPosition = Position 0.5 0.5,
      pinchStrength = 0, targetPinch = 0, handPresent = False, swipeDirection = None,
      lastWristX = 0.5, twoHandsPresent = False, handsDistance = 0, targetHandsDistance = 0\<rparr>"

definition fingerTips :: "nat list" where
  "fingerTips = [8, 12, 16, 20]"

definition fingerBases :: "nat list" where
  "fingerBases = [5, 9, 13, 17]"

definition distance3 :: "Landmark \<Rightarrow> Landmark \<Rightarrow> real" where
  "distance3 a b = sqrt ((lx a - lx b)\<^sup>2 + (ly a - ly b)\<^sup>2 + (lz a - lz b)\<^sup>2)"

definition distance2 :: "Landmark \<Rightarrow> Landmark \<Rightarrow> real" where
  "distance2 a b = sqrt ((lx a - lx b)\<^sup>2 + (ly a - ly b)\<^sup>2)"

definition calculateOpenness :: "hand \<Rightarrow> real" where
  "calculateOpenness landmarks =
     (let palm = landmarks 0;
          fingers = foldl (\<lambda>totalExtension i.
                       let tip = landmarks (fingerTips ! i);
                           base = landmarks (fingerBases ! i);
                           tipDist = distance3 tip palm;
                           baseDist = distance3 base palm
                       in totalExtension + tipDist / (baseDist + 0.001))
                     0 [0..<length fingerTips];
          thumb = landmarks 4;
          thumbBase = landmarks 2;
          thumbExt = distance2 thumb thumbBase;
          totalExtension = fingers + thumbExt * 5
      in min 1 (max 0 ((totalExtension - 2) / 4)))"

definition calculateRotation :: "hand \<Rightarrow> real" where
  "calculateRotation landmarks =
     (let wrist = landmarks 0; middleMCP = landmarks 9
      in js_atan2 (lx middleMCP - lx wrist) (ly middleMCP - ly wrist))"

definition calculatePinch :: "hand \<Rightarrow> real" where
  "calculatePinch landmarks =
     (let thumb = landmarks 4; index = landmarks 8;
          distance = distance3 thumb index
      in max 0 (1 - distance * 5))"

definition detectSwipe :: "real \<Rightarrow> GestureDetector \<Rightarrow> GestureDetector" where
  "detectSwipe currentX s =
     (let threshold = 0.15;
          diff = currentX - lastWristX s
      in if \<bar>diff\<bar> > threshold
         then s\<lparr>swipeDirection := Some (if diff > 0 then SwipeRight else SwipeLeft),
                lastWristX := currentX\<rparr>
         else s\<lparr>swipeDirection := None\<rparr>)"

definition hasHand :: "results \<Rightarrow> bool" where
  \<comment> \<open>\<open>results.multiHandLandmarks && results.multiHandLandmarks.length > 0\<close>\<close>
  "hasHand res = (case multiHandLandmarks res of None \<Rightarrow> False | Some hands \<Rightarrow> length hands > 0)"

definition smoothValues :: "config \<Rightarrow> GestureDetector \<Rightarrow> GestureDetector" where
  "smoothValues cfg s =
     s\<lparr>handOpenness := handOpenness s + (targetOpenness s - handOpenness s) * gestureSmoothing cfg,
       handRotation := handRotation s + (targetRotation s - handRotation s) * gestureSmoothing cfg,
       handPosition :=
         Position (px (handPosition s) + (px (targetPosition s) - px (handPosition s)) * gestureSmoothing cfg)
                  (py (handPosition s) + (py (targetPosition s) - py (handPosition s)) * gestureSmoothing cfg),
       pinchStrength := pinchStrength s + (targetPinch s - pinchStrength s) * gestureSmoothing cfg,
       handsDistance := handsDistance s + (targetHandsDistance s - handsDistance s) * gestureSmoothing cfg\<rparr>"

definition processResults :: "config \<Rightarrow> results \<Rightarrow> GestureDetector \<Rightarrow> GestureDetector" where
  "processResults cfg res s =
     smoothValues cfg
       (if hasHand res then
          (let hands = the (multiHandLandmarks res);
               s1 = s\<lparr>handPresent := True, twoHandsPresent := (length hands \<ge> 2)\<rparr>;
               landmarks = hands ! 0;
               s2 = s1\<lparr>targetOpenness := calculateOpenness landmarks\<rparr>;
               s3 = s2\<lparr>targetRotation := calculateRotation landmarks\<rparr>;
               wrist = landmarks 0;
               s4 = s3\<lparr>targetPosition := Position (lx wrist) (ly wrist)\<rparr>;
               s5 = s4\<lparr>targetPinch := calculatePinch landmarks\<rparr>;
               s6 = detectSwipe (lx wrist) s5
           in if twoHandsPresent s6
              then (let hand1 = (hands ! 0) 0; hand2 = (hands ! 1) 0
                    in s6\<lparr>targetHandsDistance := distance2 hand1 hand2\<rparr>)
              else s6)
        else s\<lparr>handPresent := False, targetOpenness := 0.5, swipeDirection := None\<rparr>)"

text \<open>A run of detection callbacks, one \<open>processResults\<close> call for each, in order.\<close>

fun run :: "config \<Rightarrow> GestureDetector \<Rightarrow> results list \<Rightarrow> GestureDetector" where
  "run cfg s [] = s"
| "run cfg s (res # rest) = run cfg (processResults cfg res s) rest"

text \<open>
  A hand to run the detector on: its landmarks lie on a line, \<open>d\<close> apart, starting with
  the wrist at \<open>x0\<close>. Then the bounds that every call of \<open>processResults\<close> keeps.
\<close>

definition example_hand :: "real \<Rightarrow> real \<Rightarrow> hand" where
  "example_hand x0 d k = Landmark (x0 + d * real k) 0.5 0"

definition gesture_inv :: "GestureDetector \<Rightarrow> bool" where
  "gesture_inv s \<longleftrightarrow> 0 \<le> handOpenness s \<and> handOpenness s \<le> 1 \<and>
                    0 \<le> pinchStrength s \<and> pinchStrength s \<le> 1 \<and>
                    0 \<le> targetPinch s \<and> targetPinch s \<le> 1"

section \<open>The smoothing step in binary64\<close>

text \<open>
  Taken exactly, the update \<open>a += (t - a) * f\<close> shrinks the distance to its target by the
  factor \<open>1 - f\<close> for ever. The program rounds the result of each of the three operations
  to a binary64 number, and there the update can stop short of the target. \<open>binary64\<close> is
  that rounding: to the nearest number with a significand of 53 bits, a tie to the even
  one, with the subnormal numbers below the exponent -1022. Overflow is left out; no value
  below reaches 2. \<open>smoothStep\<close> is the update with every operation rounded by \<open>fl\<close>,
  and \<open>noHandCallback\<close> is \<open>processResults\<close> on a callback without a hand, with these
  updates; the smoothing factor is the number that its literal denotes in \<open>fl\<close>.
\<close>

definition round_ties_even :: "real \<Rightarrow> int" where
  "round_ties_even y =
     (let n = \<lfloor>y\<rfloor>; r = y - of_int n
      in if r < 1 / 2 then n else if 1 / 2 < r then n + 1 else if even n then n else n + 1)"

definition binary64 :: "real \<Rightarrow> real" where
  "binary64 v =
     (if v = 0 then 0
      else let e = max \<lfloor>log 2 \<bar>v\<bar>\<rfloor> (- 1022);
               ulp = 2 powi (e - 52)
           in ulp * of_int (round_ties_even (v / ulp)))"

definition smoothStep :: "(real \<Rightarrow> real) \<Rightarrow> real \<Rightarrow> real \<Rightarrow> real \<Rightarrow> real" where
  "smoothStep fl f a t = fl (a + fl (fl (t - a) * f))"

definition smoothValues_rounded :: "(real \<Rightarrow> real) \<Rightarrow> config \<Rightarrow> GestureDetector \<Rightarrow> GestureDetector" where
  "smoothValues_rounded fl cfg s =
     (let f = fl (gestureSmoothing cfg)
      in s\<lparr>handOpenness := smoothStep fl f (handOpenness s) (targetOpenness s),
            handRotation := smoothStep fl f (handRotation s) (targetRotation s),
            handPosition :=
              Position (smoothStep fl f (px (handPosition s)) (px (targetPosition s)))
                       (smoothStep fl f (py (handPosition s)) (py (targetPosition s))),
            pinchStrength := smoothStep fl f (pinchStrength s) (targetPinch s),
            handsDistance := smoothStep fl f (handsDistance s) (targetHandsDistance s)\<rparr>)"

definition noHandCallback :: "(real \<Rightarrow> real) \<Rightarrow> config \<Rightarrow> GestureDetector \<Rightarrow> GestureDetector" where
  "noHandCallback fl cfg s =
     smoothValues_rounded fl cfg
       (s\<lparr>handPresent := False, targetOpenness := 0.5, swipeDirection := None\<rparr>)"

section \<open>Every generator is defined on its domain\<close>

lemmas js_defs = js_div_def js_mod_def js_acos_def js_sqrt_def Let_def

lemma acos_arg: 
  assumes "i < (n::nat)" shows "0 \<le> 2 * real i / real n" "2 * real i / real n \<le> 2"
  using assms by (simp_all add: field_simps)

lemma sphere_total: "i < total' \<Longrightarrow> \<exists>pos. sphere i total' rnd = Some pos"
  using acos_arg[of i total'] by (simp add: sphere_def js_defs)
lemma explosion_total: "i < total' \<Longrightarrow> \<exists>pos. explosion i total' rnd = Some pos"
  using acos_arg[of i total'] by (simp add: explosion_def js_defs)
lemma cube_total: "i < total' \<Longrightarrow> \<exists>pos. cube i total' rnd = Some pos"
  by (simp add: cube_def js_defs)
lemma torus_total: "i < total' \<Longrightarrow> \<exists>pos. torus i total' rnd = Some pos"
  by (simp add: torus_def js_defs)
lemma spiral_total: "i < total' \<Longrightarrow> \<exists>pos. spiral i total' rnd = Some pos"
  by (simp add: spiral_def js_defs)
lemma heart_total: "i < total' \<Longrightarrow> \<exists>pos. heart i total' rnd = Some pos"
  by (simp add: heart_def js_defs)
lemma galaxy_total: "i < total' \<Longrightarrow> \<exists>pos. galaxy i total' rnd = Some pos"
  by (simp add: galaxy_def js_defs)
lemma dna_total: "i < total' \<Longrightarrow> \<exists>pos. dna i total' rnd = Some pos"
  by (simp add: dna_def js_defs)
lemma tornado_total: "i < total' \<Longrightarrow> \<exists>pos. tornado i total' rnd = Some pos"
  by (simp add: tornado_def js_defs)
lemma pyramid_total: "i < total' \<Longrightarrow> \<exists>pos. pyramid i total' rnd = Some pos"
  by (simp add: pyramid_def js_defs)
lemma cylinder_total: "i < total' \<Longrightarrow> \<exists>pos. cylinder i total' rnd = Some pos"
  by (simp add: cylinder_def js_defs)
lemma cone_total: "i < total' \<Longrightarrow> \<exists>pos. cone i total' rnd = Some pos"
  by (simp add: cone_def js_defs)
lemma trefoilKnot_total: "i < total' \<Longrightarrow> \<exists>pos. trefoilKnot i total' rnd = Some pos"
  by (simp add: trefoilKnot_def js_defs)
lemma torusKnot_total: "i < total' \<Longrightarrow> \<exists>pos. torusKnot i total' rnd = Some pos"
  by (simp add: torusKnot_def js_defs)
lemma star_total: "i < total' \<Longrightarrow> \<exists>pos. star i total' rnd = Some pos"
  by (simp add: star_def js_defs)
lemma wave_total: "i < total' \<Longrightarrow> \<exists>pos. wave i total' rnd = Some pos"
  by (simp add: wave_def js_defs)
lemma ripple_total: "i < total' \<Longrightarrow> \<exists>pos. ripple i total' rnd = Some pos"
  by (simp add: ripple_def js_defs)
lemma butterfly_total: "i < total' \<Longrightarrow> \<exists>pos. butterfly i total' rnd = Some pos"
  by (simp add: butterfly_def js_defs)
lemma rose_total: "i < total' \<Longrightarrow> \<exists>pos. rose i total' rnd = Some pos"
  by (simp add: rose_def js_defs)
lemma atom_total: "i < total' \<Longrightarrow> \<exists>pos. atom i total' rnd = Some pos"
  by (simp add: atom_def js_defs)
lemma vortex_total: "i < total' \<Longrightarrow> \<exists>pos. vortex i total' rnd = Some pos"
  by (simp add: vortex_def js_defs)
lemma shell_total: "i < total' \<Longrightarrow> \<exists>pos. shell i total' rnd = Some pos"
  by (simp add: shell_def js_defs)
lemma sin_sq_ne: "1 + sin t * sin t \<noteq> (0::real)"
  using zero_le_square[of "sin t"] by linarith
lemma infinity_total: "i < total' \<Longrightarrow> \<exists>pos. infinity i total' rnd = Some pos"
  by (simp add: infinity_def js_defs sin_sq_ne)
lemma brain_total: "i < total' \<Longrightarrow> \<exists>pos. brain i total' rnd = Some pos"
  by (simp add: brain_def js_defs)
lemma diamond_total: "i < total' \<Longrightarrow> \<exists>pos. diamond i total' rnd = Some pos"
  by (simp add: diamond_def js_defs)
lemma cloud_total: "i < total' \<Longrightarrow> \<exists>pos. cloud i total' rnd = Some pos"
  by (simp add: cloud_def js_defs)
lemma lightning_total: "i < total' \<Longrightarrow> \<exists>pos. lightning i total' rnd = Some pos"
  by (simp add: lightning_def js_defs)
lemma snowflake_total: "i < total' \<Longrightarrow> \<exists>pos. snowflake i total' rnd = Some pos"
  by (simp add: snowflake_def js_defs)
lemma orbit_total: "i < total' \<Longrightarrow> \<exists>pos. orbit i total' rnd = Some pos"
  by (simp add: orbit_def js_defs)

section \<open>The loops of \<open>setPattern\<close>\<close>

lemma copy_targets_length: "length (copy_targets i tgt src) = length src"
  by (induction i tgt src rule: copy_targets.induct) (subst copy_targets.simps, simp)

lemma copy_targets_nth:
  "k < length src \<Longrightarrow>
   copy_targets i tgt src ! k = (if i \<le> k \<and> k < length tgt then tgt ! k else src ! k)"
proof (induction i tgt src rule: copy_targets.induct)
  case (1 i tgt src)
  show ?case
  proof (cases "i < length tgt")
    case True
    then have "copy_targets i tgt src ! k = copy_targets (Suc i) tgt (src[i := tgt ! i]) ! k"
      by (subst copy_targets.simps) simp
    also have "\<dots> = (if Suc i \<le> k \<and> k < length tgt then tgt ! k else src[i := tgt ! i] ! k)"
      using 1 True by simp
    also have "\<dots> = (if i \<le> k \<and> k < length tgt then tgt ! k else src ! k)"
      using 1(2) by (cases "k = i") (auto simp: True)
    finally show ?thesis .
  next
    case False
    then show ?thesis by (subst copy_targets.simps) simp
  qed
qed

lemma copy_targets_all:
  assumes "length src = length tgt"
  shows "copy_targets 0 tgt src = tgt"
  by (rule nth_equalityI) (simp_all add: copy_targets_length copy_targets_nth assms)

lemma triple_update_nth:
  "k < length tgt \<Longrightarrow>
   tgt[i * 3 := a, i * 3 + 1 := b, i * 3 + 2 := c] ! k =
     (if k div 3 = i then (if k mod 3 = 0 then a else if k mod 3 = 1 then b else c) else tgt ! k)"
proof -
  assume k: "k < length tgt"
  have dm: "(i * 3 + 1) div 3 = i" "(i * 3 + 1) mod 3 = 1"
           "(i * 3 + 2) div 3 = i" "(i * 3 + 2) mod 3 = 2" by presburger+
  have "k = i * 3 \<or> k = i * 3 + 1 \<or> k = i * 3 + 2 \<or> k div 3 \<noteq> i" by presburger
  then show ?thesis
  proof (elim disjE)
    assume "k = i * 3" with k show ?thesis by simp
  next
    assume "k = i * 3 + 1" with k dm show ?thesis by (simp del: One_nat_def add_Suc_right)
  next
    assume "k = i * 3 + 2" with k dm show ?thesis by (simp del: One_nat_def add_Suc_right add_2_eq_Suc')
  next
    assume d: "k div 3 \<noteq> i"
    then have "k \<noteq> i * 3" "k \<noteq> i * 3 + 1" "k \<noteq> i * 3 + 2" by auto
    with d show ?thesis by simp
  qed
qed

lemma fill_targets_Filled:
  assumes "\<forall>j. i \<le> j \<and> j < n \<longrightarrow> (\<exists>pos. f j n (rnd j) = Some pos)"
  shows "\<exists>tgt'. fill_targets f n rnd i tgt = Filled tgt' \<and> length tgt' = length tgt \<and>
           (\<forall>k<length tgt. tgt' ! k =
              (if i \<le> k div 3 \<and> k div 3 < n
               then component (the (f (k div 3) n (rnd (k div 3)))) (k mod 3) else tgt ! k))"
  using assms
proof (induction f n rnd i tgt rule: fill_targets.induct)
  case (1 f n rnd i tgt)
  show ?case
  proof (cases "i < n")
    case False
    then show ?thesis by (subst fill_targets.simps) simp
  next
    case True
    with 1(2) obtain pos where pos: "f i n (rnd i) = Some pos" by auto
    let ?t1 = "tgt[i * 3 := vx pos, i * 3 + 1 := vy pos, i * 3 + 2 := vz pos]"
    have unfold: "fill_targets f n rnd i tgt = fill_targets f n rnd (Suc i) ?t1"
      using True pos by (subst fill_targets.simps) simp
    from 1(2) have "\<forall>j. Suc i \<le> j \<and> j < n \<longrightarrow> (\<exists>pos. f j n (rnd j) = Some pos)" by auto
    from 1(1)[OF True pos this] obtain tgt' where
      r: "fill_targets f n rnd (Suc i) ?t1 = Filled tgt'" and
      l: "length tgt' = length ?t1" and
      c: "\<forall>k<length ?t1. tgt' ! k =
              (if Suc i \<le> k div 3 \<and> k div 3 < n
               then component (the (f (k div 3) n (rnd (k div 3)))) (k mod 3) else ?t1 ! k)"
      by blast
    have "\<forall>k<length tgt. tgt' ! k =
              (if i \<le> k div 3 \<and> k div 3 < n
               then component (the (f (k div 3) n (rnd (k div 3)))) (k mod 3) else tgt ! k)"
    proof (intro allI impI)
      fix k assume k: "k < length tgt"
      then have "tgt' ! k = (if Suc i \<le> k div 3 \<and> k div 3 < n
               then component (the (f (k div 3) n (rnd (k div 3)))) (k mod 3) else ?t1 ! k)"
        using c by simp
      moreover have "?t1 ! k = (if k div 3 = i then component pos (k mod 3) else tgt ! k)"
        using triple_update_nth[OF k, of i "vx pos" "vy pos" "vz pos"] by (simp add: component_def)
      ultimately show "tgt' ! k =
              (if i \<le> k div 3 \<and> k div 3 < n
               then component (the (f (k div 3) n (rnd (k div 3)))) (k mod 3) else tgt ! k)"
        using True pos by auto
    qed
    with r l unfold show ?thesis by simp
  qed
qed

section \<open>Retargeting\<close>

lemma PATTERNS_total:
  assumes "(name, patternFn) \<in> set PATTERNS" and "i < n"
  shows "\<exists>pos. patternFn i n rnd = Some pos"
proof -
  from assms(1) have "patternFn \<in> {sphere, cube, torus, spiral, heart, galaxy, dna, tornado,
      pyramid, cylinder, cone, trefoilKnot, torusKnot, star, explosion, wave, ripple,
      butterfly, rose, atom, vortex, shell, infinity, brain, diamond, cloud, lightning,
      snowflake, orbit}"
    unfolding PATTERNS_def by auto
  with assms(2) show ?thesis
    using sphere_total cube_total torus_total spiral_total heart_total galaxy_total dna_total
      tornado_total pyramid_total cylinder_total cone_total trefoilKnot_total torusKnot_total
      star_total explosion_total wave_total ripple_total butterfly_total rose_total atom_total
      vortex_total shell_total infinity_total brain_total diamond_total cloud_total
      lightning_total snowflake_total orbit_total
    by (elim insertE emptyE) (simp_all only:)
qed

lemma registered_lookup:
  assumes "name \<in> set PATTERN_LIST"
  obtains patternFn where "map_of PATTERNS name = Some patternFn" "(name, patternFn) \<in> set PATTERNS"
proof -
  from assms have "map_of PATTERNS name \<noteq> None"
    by (simp add: PATTERN_LIST_def map_of_eq_None_iff)
  then obtain g where "map_of PATTERNS name = Some g" by auto
  then show ?thesis using that map_of_SomeD by fastforce
qed

lemma setPattern_Generator:
  assumes g: "map_of PATTERNS patternName = Some patternFn"
    and tot: "\<forall>i<count s. \<exists>pos. patternFn i (count s) (rnd i) = Some pos"
  shows "\<exists>tgt. fill_targets patternFn (count s) rnd 0 (targetPositions s) = Filled tgt \<and>
           length tgt = length (targetPositions s) \<and>
           (\<forall>k<length (targetPositions s). tgt ! k =
              (if k div 3 < count s
               then component (the (patternFn (k div 3) (count s) (rnd (k div 3)))) (k mod 3)
               else targetPositions s ! k)) \<and>
           setPattern patternName now rnd s =
             Returned (s\<lparr>currentPattern := patternName,
                         sourcePositions := copy_targets 0 (targetPositions s) (sourcePositions s),
                         targetPositions := tgt, morphStartTime := now\<rparr>)"
proof -
  from tot have "\<forall>j. 0 \<le> j \<and> j < count s \<longrightarrow> (\<exists>pos. patternFn j (count s) (rnd j) = Some pos)"
    by simp
  from fill_targets_Filled[where i = 0 and n = "count s" and f = patternFn and rnd = rnd
      and tgt = "targetPositions s", OF this] obtain tgt where
    f: "fill_targets patternFn (count s) rnd 0 (targetPositions s) = Filled tgt" and
    l: "length tgt = length (targetPositions s)" and
    c: "\<forall>k<length (targetPositions s). tgt ! k =
              (if 0 \<le> k div 3 \<and> k div 3 < count s
               then component (the (patternFn (k div 3) (count s) (rnd (k div 3)))) (k mod 3)
               else targetPositions s ! k)"
    by blast
  have "setPattern patternName now rnd s =
             Returned (s\<lparr>currentPattern := patternName,
                         sourcePositions := copy_targets 0 (targetPositions s) (sourcePositions s),
                         targetPositions := tgt, morphStartTime := now\<rparr>)"
    using g f by (simp add: setPattern_def PATTERNS_get_def)
  with f l c show ?thesis by simp
qed

lemma ParticleSystem_new_buffers:
  "\<exists>s. ParticleSystem_new cfg now rnd = Returned s \<and> count s = particleCount cfg \<and>
       length (sourcePositions s) = particleCount cfg * 3 \<and>
       length (targetPositions s) = particleCount cfg * 3"
proof -
  have g: "map_of PATTERNS ''sphere'' = Some sphere" by (simp add: PATTERNS_def)
  have tot: "\<forall>i<count (createParticles cfg).
               \<exists>pos. sphere i (count (createParticles cfg)) (rnd i) = Some pos"
    using sphere_total by blast
  from setPattern_Generator[OF g tot, of now] show ?thesis
    by (auto simp: ParticleSystem_new_def createParticles_def copy_targets_length)
qed

lemma updateParticleCount_room:
  assumes "length (targetPositions s) = particleCount cfg * 3"
  shows "count (updateParticleCount cfg newCount s) * 3 \<le>
           length (targetPositions (updateParticleCount cfg newCount s))"
  using assms by (simp add: updateParticleCount_def)

text \<open>
  Claim C1. For a registered pattern name, in a state whose two buffers have the same
  length and hold at least \<open>count\<close> points, \<open>setPattern\<close> runs to its end; the source
  buffer is then the target buffer as it was before the call, the three target entries of
  every particle \<open>i < count\<close> are the coordinates that the registered generator returns for
  \<open>(i, count)\<close>, the entries beyond are untouched, and \<open>morphStartTime\<close> is the current time.
\<close>

theorem setPattern_registered:
  assumes reg: "patternName \<in> set PATTERN_LIST"
    and len: "length (sourcePositions s) = length (targetPositions s)"
    and cap: "count s * 3 \<le> length (targetPositions s)"
  shows "\<exists>patternFn s'.
           map_of PATTERNS patternName = Some patternFn \<and>
           setPattern patternName now rnd s = Returned s' \<and>
           sourcePositions s' = targetPositions s \<and>
           length (targetPositions s') = length (targetPositions s) \<and>
           (\<forall>i<count s. \<exists>pos. patternFn i (count s) (rnd i) = Some pos \<and>
                          targetPositions s' ! (i * 3) = vx pos \<and>
                          targetPositions s' ! (i * 3 + 1) = vy pos \<and>
                          targetPositions s' ! (i * 3 + 2) = vz pos) \<and>
           (\<forall>k. count s * 3 \<le> k \<and> k < length (targetPositions s) \<longrightarrow>
                targetPositions s' ! k = targetPositions s ! k) \<and>
           morphStartTime s' = now \<and> currentPattern s' = patternName \<and> count s' = count s"
proof -
  from reg obtain patternFn where
    g: "map_of PATTERNS patternName = Some patternFn" and m: "(patternName, patternFn) \<in> set PATTERNS"
    by (rule registered_lookup)
  have tot: "\<forall>i<count s. \<exists>pos. patternFn i (count s) (rnd i) = Some pos"
    using PATTERNS_total[OF m] by blast
  from setPattern_Generator[OF g tot, of now] obtain tgt where
    l: "length tgt = length (targetPositions s)" and
    c: "\<forall>k<length (targetPositions s). tgt ! k =
              (if k div 3 < count s
               then component (the (patternFn (k div 3) (count s) (rnd (k div 3)))) (k mod 3)
               else targetPositions s ! k)" and
    r: "setPattern patternName now rnd s =
             Returned (s\<lparr>currentPattern := patternName,
                         sourcePositions := copy_targets 0 (targetPositions s) (sourcePositions s),
                         targetPositions := tgt, morphStartTime := now\<rparr>)"
    by blast
  let ?s' = "s\<lparr>currentPattern := patternName,
                sourcePositions := copy_targets 0 (targetPositions s) (sourcePositions s),
                targetPositions := tgt, morphStartTime := now\<rparr>"
  have src: "sourcePositions ?s' = targetPositions s"
    using copy_targets_all[OF len] by simp
  have each: "\<forall>i<count s. \<exists>pos. patternFn i (count s) (rnd i) = Some pos \<and>
                          tgt ! (i * 3) = vx pos \<and> tgt ! (i * 3 + 1) = vy pos \<and>
                          tgt ! (i * 3 + 2) = vz pos"
  proof (intro allI impI)
    fix i assume i: "i < count s"
    with tot obtain pos where pos: "patternFn i (count s) (rnd i) = Some pos" by blast
    have dm: "(i * 3) div 3 = i" "(i * 3) mod 3 = 0" "(i * 3 + 1) div 3 = i" "(i * 3 + 1) mod 3 = 1"
           "(i * 3 + 2) div 3 = i" "(i * 3 + 2) mod 3 = 2" by presburger+
    from i cap have b: "i * 3 < length (targetPositions s)" "i * 3 + 1 < length (targetPositions s)"
      "i * 3 + 2 < length (targetPositions s)" by simp_all
    have "tgt ! (i * 3) = vx pos"
      using c[rule_format, OF b(1)] i pos by (simp only: dm component_def) simp
    moreover have "tgt ! (i * 3 + 1) = vy pos"
      using c[rule_format, OF b(2)] i pos by (simp only: dm component_def) simp
    moreover have "tgt ! (i * 3 + 2) = vz pos"
      using c[rule_format, OF b(3)] i pos by (simp only: dm component_def) simp
    ultimately show "\<exists>pos. patternFn i (count s) (rnd i) = Some pos \<and>
                          tgt ! (i * 3) = vx pos \<and> tgt ! (i * 3 + 1) = vy pos \<and>
                          tgt ! (i * 3 + 2) = vz pos"
      using pos by blast
  qed
  have rest: "\<forall>k. count s * 3 \<le> k \<and> k < length (targetPositions s) \<longrightarrow>
                tgt ! k = targetPositions s ! k"
  proof (intro allI impI)
    fix k assume k: "count s * 3 \<le> k \<and> k < length (targetPositions s)"
    then have "\<not> k div 3 < count s" by presburger
    with c k show "tgt ! k = targetPositions s ! k" by simp
  qed
  show ?thesis
    apply (rule exI[of _ patternFn], rule exI[of _ ?s'])
    using g r src l each rest by simp
qed

theorem setPattern_registered_witness:
  "''cone'' \<in> set PATTERN_LIST \<and>
   setPattern ''cone'' 7 (constant_random 0)
     \<lparr>count = 1, currentPattern = ''sphere'', morphStartTime = 0,
      sourcePositions = [0, 0, 0], targetPositions = [1, 2, 3]\<rparr> =
   Returned \<lparr>count = 1, currentPattern = ''cone'', morphStartTime = 7,
      sourcePositions = [1, 2, 3], targetPositions = [4, - 5, 0]\<rparr>"
proof -
  let ?s = "\<lparr>count = 1, currentPattern = ''sphere'', morphStartTime = 0,
      sourcePositions = [0, 0, 0], targetPositions = [1, 2, 3::real]\<rparr>"
  have a: "''cone'' \<in> set PATTERN_LIST" by (simp add: PATTERN_LIST_def PATTERNS_def)
  have b: "length (sourcePositions ?s) = length (targetPositions ?s)" by simp
  have c: "count ?s * 3 \<le> length (targetPositions ?s)" by simp
  have g: "map_of PATTERNS ''cone'' = Some cone" by (simp add: PATTERNS_def)
  have p: "cone 0 1 (constant_random 0 0) = Some (Vector3 4 (- 5) 0)"
    by (simp add: cone_def js_div_def Let_def)
  from setPattern_registered[OF a b c, of 7 "constant_random 0"] obtain patternFn s' where
    r: "map_of PATTERNS ''cone'' = Some patternFn" "setPattern ''cone'' 7 (constant_random 0) ?s = Returned s'"
       "sourcePositions s' = targetPositions ?s"
       "length (targetPositions s') = length (targetPositions ?s)"
       "\<forall>i<count ?s. \<exists>pos. patternFn i (count ?s) (constant_random 0 i) = Some pos \<and>
                          targetPositions s' ! (i * 3) = vx pos \<and>
                          targetPositions s' ! (i * 3 + 1) = vy pos \<and>
                          targetPositions s' ! (i * 3 + 2) = vz pos"
       "morphStartTime s' = 7" "currentPattern s' = ''cone''" "count s' = count ?s"
    by blast
  from r(1) g have pf: "patternFn = cone" by simp
  from r(5) pf p have t: "targetPositions s' ! 0 = 4 \<and> targetPositions s' ! Suc 0 = - 5 \<and>
      targetPositions s' ! Suc (Suc 0) = 0"
    by simp
  from r(4) have "length (targetPositions s') = 3" by simp
  with t have "targetPositions s' = [4, - 5, 0]"
    by (intro nth_equalityI) (auto simp: less_Suc_eq numeral_3_eq_3)
  with r(2,3,6,7,8) have "s' = \<lparr>count = 1, currentPattern = ''cone'', morphStartTime = 7,
      sourcePositions = [1, 2, 3], targetPositions = [4, - 5, 0]\<rparr>"
    by (cases s') simp
  with a r(2) show ?thesis by simp
qed

text \<open>
  Claim C2, as stated, fails, twice. The name \<open>constructor\<close> is not a registered pattern,
  yet \<open>PATTERNS['constructor']\<close> is found on \<open>Object.prototype\<close>: the guard lets it through,
  and the pattern name and the source buffer have changed when the built-in is called.
  And for a name that is found nowhere, such as \<open>nope\<close>, the call does not fail: it is an
  ordinary return, with the state as it was.
\<close>

theorem setPattern_unregistered_counterexample:
  "''constructor'' \<notin> set PATTERN_LIST \<and>
   setPattern ''constructor'' 7 (constant_random 0)
     \<lparr>count = 1, currentPattern = ''sphere'', morphStartTime = 0,
      sourcePositions = [0, 0, 0], targetPositions = [1, 2, 3]\<rparr> =
   Stopped_HostCall ''constructor''
     \<lparr>count = 1, currentPattern = ''constructor'', morphStartTime = 0,
      sourcePositions = [1, 2, 3], targetPositions = [1, 2, 3]\<rparr> \<and>
   ''nope'' \<notin> set PATTERN_LIST \<and>
   setPattern ''nope'' 7 (constant_random 0)
     \<lparr>count = 1, currentPattern = ''sphere'', morphStartTime = 0,
      sourcePositions = [0, 0, 0], targetPositions = [1, 2, 3]\<rparr> =
   Returned
     \<lparr>count = 1, currentPattern = ''sphere'', morphStartTime = 0,
      sourcePositions = [0, 0, 0], targetPositions = [1, 2, 3]\<rparr>"
  by (simp add: PATTERN_LIST_def PATTERNS_def setPattern_def PATTERNS_get_def Object_prototype_def
      copy_targets.simps)

text \<open>
  Claim C2, amended. For a name that is neither a registered pattern nor a property of
  \<open>Object.prototype\<close>, \<open>setPattern\<close> returns through its guard and the state is unchanged.
  Nothing is signalled: the outcome is an ordinary return, as for a registered name.
\<close>

theorem setPattern_undefined:
  assumes "patternName \<notin> set PATTERN_LIST" and "patternName \<notin> set Object_prototype"
  shows "setPattern patternName now rnd s = Returned s"
proof -
  from assms(1) have "map_of PATTERNS patternName = None"
    by (simp add: PATTERN_LIST_def map_of_eq_None_iff)
  with assms(2) show ?thesis by (simp add: setPattern_def PATTERNS_get_def)
qed

theorem setPattern_undefined_witness:
  "''nope'' \<notin> set PATTERN_LIST \<and> ''nope'' \<notin> set Object_prototype \<and>
   setPattern ''nope'' 7 (constant_random 0)
     \<lparr>count = 1, currentPattern = ''sphere'', morphStartTime = 0,
      sourcePositions = [0, 0, 0], targetPositions = [1, 2, 3]\<rparr> =
   Returned \<lparr>count = 1, currentPattern = ''sphere'', morphStartTime = 0,
      sourcePositions = [0, 0, 0], targetPositions = [1, 2, 3]\<rparr>"
proof -
  have a: "''nope'' \<notin> set PATTERN_LIST" by (simp add: PATTERN_LIST_def PATTERNS_def)
  have b: "''nope'' \<notin> set Object_prototype" by (simp add: Object_prototype_def)
  show ?thesis using a b setPattern_undefined[OF a b] by simp
qed

text \<open>
  Claim C3. With a positive morph duration the morph factor at time \<open>t\<close> is
  \<open>min 1 ((t - morphStartTime) / morphSpeed)\<close>; from \<open>morphStartTime\<close> on it lies in \<open>[0, 1]\<close>,
  it does not decrease as time goes on, and it is 1 from \<open>morphStartTime + morphSpeed\<close> on.
  It depends on the state through \<open>morphStartTime\<close> only, which only \<open>setPattern\<close> writes.
\<close>

theorem morphFactor_clamped_monotone:
  assumes "0 < morphSpeed cfg"
  shows "\<exists>f1 f2. morphFactor cfg s t1 = Some f1 \<and> morphFactor cfg s t2 = Some f2 \<and>
           f1 = min 1 ((t1 - morphStartTime s) / morphSpeed cfg) \<and>
           (morphStartTime s \<le> t1 \<longrightarrow> 0 \<le> f1 \<and> f1 \<le> 1) \<and>
           (t1 \<le> t2 \<longrightarrow> f1 \<le> f2) \<and>
           (morphStartTime s + morphSpeed cfg \<le> t1 \<longrightarrow> f1 = 1)"
proof -
  let ?d = "morphSpeed cfg"
  have f1: "morphFactor cfg s t1 = Some (min 1 ((t1 - morphStartTime s) / ?d))"
   and f2: "morphFactor cfg s t2 = Some (min 1 ((t2 - morphStartTime s) / ?d))"
    using assms by (simp_all add: morphFactor_def js_div_def)
  have nn: "morphStartTime s \<le> t1 \<longrightarrow> 0 \<le> min 1 ((t1 - morphStartTime s) / ?d)"
    using assms by simp
  have mono: "t1 \<le> t2 \<longrightarrow> min 1 ((t1 - morphStartTime s) / ?d) \<le> min 1 ((t2 - morphStartTime s) / ?d)"
    using assms by (auto simp: min_def divide_le_cancel field_simps)
  have pin: "morphStartTime s + ?d \<le> t1 \<longrightarrow> min 1 ((t1 - morphStartTime s) / ?d) = 1"
    using assms by (auto simp: min_def field_simps)
  show ?thesis using f1 f2 nn mono pin by simp
qed

theorem morphFactor_clamped_monotone_witness:
  "0 < morphSpeed CONFIG \<and>
   (\<exists>f1 f2. morphFactor CONFIG \<lparr>count = 1, currentPattern = ''sphere'', morphStartTime = 2,
                sourcePositions = [0, 0, 0], targetPositions = [1, 2, 3]\<rparr> 3 = Some f1 \<and>
            morphFactor CONFIG \<lparr>count = 1, currentPattern = ''sphere'', morphStartTime = 2,
                sourcePositions = [0, 0, 0], targetPositions = [1, 2, 3]\<rparr> 4 = Some f2 \<and>
            f1 = 2 / 3 \<and> f2 = 1 \<and> f1 \<le> f2)"
proof -
  have h: "0 < morphSpeed CONFIG" by (simp add: CONFIG_def)
  show ?thesis
    using h morphFactor_clamped_monotone[OF h, of
        "\<lparr>count = 1, currentPattern = ''sphere'', morphStartTime = 2,
          sourcePositions = [0, 0, 0], targetPositions = [1, 2, 3]\<rparr>" 3 4]
    by (auto simp: CONFIG_def morphFactor_def js_div_def)
qed

text \<open>
  Claim C4. For every registered pattern and every \<open>total\<close> among 1, 2, 1000 and 30000, the
  generator returns a point for every index below \<open>total\<close>, whatever the random numbers: no
  operation on the way divides by zero or leaves its domain.
\<close>

theorem generators_finite:
  assumes "total' \<in> {1, 2, 1000, 30000}" and "(name, patternFn) \<in> set PATTERNS" and "i < total'"
  shows "\<exists>pos. patternFn i total' rnd = Some pos"
  using PATTERNS_total[OF assms(2) assms(3)] .

theorem generators_finite_witness:
  "(2::nat) \<in> {1, 2, 1000, 30000} \<and> (''cone'', cone) \<in> set PATTERNS \<and> (1::nat) < 2 \<and>
   cone 1 2 (constant_random 0 1) = Some (Vector3 (2 * cos 2.39996) 0 (2 * sin 2.39996))"
proof -
  have a: "(2::nat) \<in> {1, 2, 1000, 30000}" by simp
  have b: "(''cone'', cone) \<in> set PATTERNS" by (simp add: PATTERNS_def)
  have c: "(1::nat) < 2" by simp
  show ?thesis using a b c generators_finite[OF a b c, of "constant_random 0 1"]
    by (simp add: cone_def js_div_def Let_def constant_random_def)
qed

lemma sphere_no_random: "sphere i n rnd = sphere i n rnd'"
  by (simp add: sphere_def)

text \<open>
  Claim C5. Two calls of \<open>setPattern('sphere')\<close> in a row both run to their end, and the
  target buffer after the second call is the target buffer after the first.
\<close>

theorem setPattern_sphere_twice:
  "\<exists>s1 s2. setPattern ''sphere'' now1 rnd1 s = Returned s1 \<and>
           setPattern ''sphere'' now2 rnd2 s1 = Returned s2 \<and>
           targetPositions s2 = targetPositions s1"
proof -
  have g: "map_of PATTERNS ''sphere'' = Some sphere" by (simp add: PATTERNS_def)
  have tot: "\<And>n rnd. \<forall>i<n. \<exists>pos. sphere i n (rnd i) = Some pos"
    using sphere_total by blast
  from setPattern_Generator[OF g tot, of s rnd1 now1] obtain tgt1 where
    l1: "length tgt1 = length (targetPositions s)" and
    c1: "\<forall>k<length (targetPositions s). tgt1 ! k =
              (if k div 3 < count s
               then component (the (sphere (k div 3) (count s) (rnd1 (k div 3)))) (k mod 3)
               else targetPositions s ! k)" and
    r1: "setPattern ''sphere'' now1 rnd1 s =
             Returned (s\<lparr>currentPattern := ''sphere'',
                         sourcePositions := copy_targets 0 (targetPositions s) (sourcePositions s),
                         targetPositions := tgt1, morphStartTime := now1\<rparr>)"
    by blast
  let ?s1 = "s\<lparr>currentPattern := ''sphere'',
                sourcePositions := copy_targets 0 (targetPositions s) (sourcePositions s),
                targetPositions := tgt1, morphStartTime := now1\<rparr>"
  from setPattern_Generator[OF g tot, of ?s1 rnd2 now2] obtain tgt2 where
    l2: "length tgt2 = length tgt1" and
    c2: "\<forall>k<length tgt1. tgt2 ! k =
              (if k div 3 < count s
               then component (the (sphere (k div 3) (count s) (rnd2 (k div 3)))) (k mod 3)
               else tgt1 ! k)" and
    r2: "setPattern ''sphere'' now2 rnd2 ?s1 =
             Returned (?s1\<lparr>currentPattern := ''sphere'',
                         sourcePositions := copy_targets 0 (targetPositions ?s1) (sourcePositions ?s1),
                         targetPositions := tgt2, morphStartTime := now2\<rparr>)"
    by auto
  have "tgt2 = tgt1"
  proof (rule nth_equalityI)
    show "length tgt2 = length tgt1" by (rule l2)
  next
    fix k assume "k < length tgt2"
    then have k: "k < length tgt1" using l2 by simp
    show "tgt2 ! k = tgt1 ! k"
    proof (cases "k div 3 < count s")
      case True
      have "tgt2 ! k = component (the (sphere (k div 3) (count s) (rnd2 (k div 3)))) (k mod 3)"
        using c2 k True by simp
      also have "\<dots> = component (the (sphere (k div 3) (count s) (rnd1 (k div 3)))) (k mod 3)"
        using sphere_no_random[of "k div 3" "count s" "rnd2 (k div 3)" "rnd1 (k div 3)"] by simp
      also have "\<dots> = tgt1 ! k" using c1 k l1 True by simp
      finally show ?thesis .
    next
      case False
      then show ?thesis using c2 k by simp
    qed
  qed
  with r1 r2 show ?thesis by simp
qed

theorem setPattern_sphere_twice_witness:
  "\<exists>s1 s2. setPattern ''sphere'' 1 (constant_random 0)
              \<lparr>count = 1, currentPattern = ''cone'', morphStartTime = 0,
               sourcePositions = [0, 0, 0], targetPositions = [1, 2, 3]\<rparr> = Returned s1 \<and>
            setPattern ''sphere'' 2 (constant_random 1) s1 = Returned s2 \<and>
            targetPositions s2 = targetPositions s1"
  using setPattern_sphere_twice[of 1 "constant_random 0"
      "\<lparr>count = 1, currentPattern = ''cone'', morphStartTime = 0,
        sourcePositions = [0, 0, 0], targetPositions = [1, 2, 3]\<rparr>" 2 "constant_random 1"]
  by simp

section \<open>Gestures\<close>

lemma distance3_nonneg: "0 \<le> distance3 a b"
  by (simp add: distance3_def)


lemma calculateOpenness_bounds: "0 \<le> calculateOpenness h \<and> calculateOpenness h \<le> 1"
  by (simp add: calculateOpenness_def Let_def)

lemma calculatePinch_bounds: "0 \<le> calculatePinch h \<and> calculatePinch h \<le> 1"
  using distance3_nonneg[of "h 4" "h 8"] by (simp add: calculatePinch_def Let_def)

lemma smooth_step_bounds:
  fixes a t f :: real
  assumes "0 \<le> a" "a \<le> 1" "0 \<le> t" "t \<le> 1" "0 < f" "f \<le> 1"
  shows "0 \<le> a + (t - a) * f \<and> a + (t - a) * f \<le> 1"
proof -
  have e: "a + (t - a) * f = (1 - f) * a + f * t" by (simp add: algebra_simps)
  have "0 \<le> (1 - f) * a" "0 \<le> f * t" using assms by simp_all
  then have lo: "0 \<le> (1 - f) * a + f * t" by linarith
  have "(1 - f) * a \<le> (1 - f) * 1" using assms by (intro mult_left_mono) simp_all
  moreover have "f * t \<le> f * 1" using assms by (intro mult_left_mono) simp_all
  ultimately have "(1 - f) * a + f * t \<le> 1" by simp
  with lo e show ?thesis by simp
qed

lemma processResults_noHand:
  assumes "\<not> hasHand res"
  shows "processResults cfg res s =
           smoothValues cfg (s\<lparr>handPresent := False, targetOpenness := 0.5, swipeDirection := None\<rparr>)"
  using assms by (simp add: processResults_def)

lemma processResults_targets:
  "hasHand res \<Longrightarrow>
     targetOpenness (processResults cfg res s) = calculateOpenness (the (multiHandLandmarks res) ! 0) \<and>
     targetPinch (processResults cfg res s) = calculatePinch (the (multiHandLandmarks res) ! 0)"
  "\<not> hasHand res \<Longrightarrow>
     targetOpenness (processResults cfg res s) = 0.5 \<and>
     targetPinch (processResults cfg res s) = targetPinch s"
  by (simp_all add: processResults_def smoothValues_def detectSwipe_def Let_def)

lemma processResults_smoothed:
  "handOpenness (processResults cfg res s) =
     handOpenness s + (targetOpenness (processResults cfg res s) - handOpenness s) * gestureSmoothing cfg"
  "pinchStrength (processResults cfg res s) =
     pinchStrength s + (targetPinch (processResults cfg res s) - pinchStrength s) * gestureSmoothing cfg"
  by (simp_all add: processResults_def smoothValues_def detectSwipe_def Let_def)

lemma gesture_inv_step:
  assumes f: "0 < gestureSmoothing cfg" "gestureSmoothing cfg \<le> 1" and inv: "gesture_inv s"
  shows "gesture_inv (processResults cfg res s)"
proof -
  let ?s' = "processResults cfg res s"
  have to: "0 \<le> targetOpenness ?s' \<and> targetOpenness ?s' \<le> 1"
    using processResults_targets[of res cfg s] calculateOpenness_bounds by (cases "hasHand res") simp_all
  have tp: "0 \<le> targetPinch ?s' \<and> targetPinch ?s' \<le> 1"
    using processResults_targets[of res cfg s] calculatePinch_bounds inv
    by (cases "hasHand res") (simp_all add: gesture_inv_def)
  have "0 \<le> handOpenness ?s' \<and> handOpenness ?s' \<le> 1"
    using smooth_step_bounds[of "handOpenness s" "targetOpenness ?s'" "gestureSmoothing cfg"]
      to f inv processResults_smoothed(1)[of cfg res s] by (simp add: gesture_inv_def)
  moreover have "0 \<le> pinchStrength ?s' \<and> pinchStrength ?s' \<le> 1"
    using smooth_step_bounds[of "pinchStrength s" "targetPinch ?s'" "gestureSmoothing cfg"]
      tp f inv processResults_smoothed(2)[of cfg res s] by (simp add: gesture_inv_def)
  ultimately show ?thesis using tp by (simp add: gesture_inv_def)
qed

lemma gesture_inv_run:
  assumes "0 < gestureSmoothing cfg" "gestureSmoothing cfg \<le> 1"
  shows "gesture_inv s \<Longrightarrow> gesture_inv (run cfg s rs)"
  by (induction rs arbitrary: s) (simp_all add: gesture_inv_step[OF assms])

lemma gesture_inv_new: "gesture_inv GestureDetector_new"
  by (simp add: gesture_inv_def GestureDetector_new_def)

text \<open>
  Claim C9. With a smoothing factor in \<open>(0, 1]\<close>, from a state whose smoothed openness,
  smoothed pinch strength and pinch target lie in \<open>[0, 1]\<close>, as they do in the state the
  constructor builds, they lie in \<open>[0, 1]\<close> after any sequence of \<open>processResults\<close> calls.
  The pinch target is part of the invariant because a callback without a hand keeps it.
\<close>

theorem smoothed_values_stay_in_unit_interval:
  assumes "0 < gestureSmoothing cfg" and "gestureSmoothing cfg \<le> 1"
    and "0 \<le> handOpenness s" and "handOpenness s \<le> 1"
    and "0 \<le> pinchStrength s" and "pinchStrength s \<le> 1"
    and "0 \<le> targetPinch s" and "targetPinch s \<le> 1"
  shows "0 \<le> handOpenness (run cfg s rs) \<and> handOpenness (run cfg s rs) \<le> 1 \<and>
         0 \<le> pinchStrength (run cfg s rs) \<and> pinchStrength (run cfg s rs) \<le> 1 \<and>
         0 \<le> targetPinch (run cfg s rs) \<and> targetPinch (run cfg s rs) \<le> 1"
proof -
  have "gesture_inv s" using assms by (simp add: gesture_inv_def)
  from gesture_inv_run[OF assms(1,2) this, of rs] show ?thesis by (simp add: gesture_inv_def)
qed

theorem smoothed_values_stay_in_unit_interval_witness:
  "0 < gestureSmoothing CONFIG \<and> gestureSmoothing CONFIG \<le> 1 \<and>
   0 \<le> handOpenness GestureDetector_new \<and> handOpenness GestureDetector_new \<le> 1 \<and>
   0 \<le> pinchStrength GestureDetector_new \<and> pinchStrength GestureDetector_new \<le> 1 \<and>
   0 \<le> targetPinch GestureDetector_new \<and> targetPinch GestureDetector_new \<le> 1 \<and>
   0 \<le> handOpenness (run CONFIG GestureDetector_new
          [\<lparr>multiHandLandmarks = Some [example_hand 0.8 0.01]\<rparr>, \<lparr>multiHandLandmarks = None\<rparr>]) \<and>
   handOpenness (run CONFIG GestureDetector_new
          [\<lparr>multiHandLandmarks = Some [example_hand 0.8 0.01]\<rparr>, \<lparr>multiHandLandmarks = None\<rparr>]) \<le> 1 \<and>
   0 \<le> pinchStrength (run CONFIG GestureDetector_new
          [\<lparr>multiHandLandmarks = Some [example_hand 0.8 0.01]\<rparr>, \<lparr>multiHandLandmarks = None\<rparr>]) \<and>
   pinchStrength (run CONFIG GestureDetector_new
          [\<lparr>multiHandLandmarks = Some [example_hand 0.8 0.01]\<rparr>, \<lparr>multiHandLandmarks = None\<rparr>]) \<le> 1"
proof -
  have f: "0 < gestureSmoothing CONFIG" "gestureSmoothing CONFIG \<le> 1" by (simp_all add: CONFIG_def)
  have i: "0 \<le> handOpenness GestureDetector_new" "handOpenness GestureDetector_new \<le> 1"
    "0 \<le> pinchStrength GestureDetector_new" "pinchStrength GestureDetector_new \<le> 1"
    "0 \<le> targetPinch GestureDetector_new" "targetPinch GestureDetector_new \<le> 1"
    by (simp_all add: GestureDetector_new_def)
  show ?thesis
    using f i smoothed_values_stay_in_unit_interval[OF f i,
        of "[\<lparr>multiHandLandmarks = Some [example_hand 0.8 0.01]\<rparr>, \<lparr>multiHandLandmarks = None\<rparr>]"]
    by simp
qed



text \<open>
  Claim C6. On a callback with a hand, with \<open>diff\<close> the wrist's x minus \<open>lastWristX\<close>
  (the reference, written at the last swipe), a swipe is set if and only if
  \<open>\<bar>diff\<bar> > 0.15\<close>. Then the direction is right exactly when \<open>diff\<close> is positive, left
  otherwise, and the reference becomes the wrist's x; if not, the swipe is cleared and the
  reference stays.
\<close>

theorem swipe_iff_threshold:
  assumes "hasHand res"
  shows "let wristX = lx ((the (multiHandLandmarks res) ! 0) 0);
             diff = wristX - lastWristX s;
             s' = processResults cfg res s
         in (swipeDirection s' \<noteq> None \<longleftrightarrow> \<bar>diff\<bar> > 0.15) \<and>
            (\<bar>diff\<bar> > 0.15 \<longrightarrow>
               swipeDirection s' = Some (if diff > 0 then SwipeRight else SwipeLeft) \<and>
               (swipeDirection s' = Some SwipeRight \<longleftrightarrow> diff > 0) \<and>
               lastWristX s' = wristX) \<and>
            (\<not> \<bar>diff\<bar> > 0.15 \<longrightarrow> swipeDirection s' = None \<and> lastWristX s' = lastWristX s)"
  using assms by (simp add: processResults_def smoothValues_def detectSwipe_def Let_def)

theorem swipe_iff_threshold_witness:
  "hasHand \<lparr>multiHandLandmarks = Some [example_hand 0.8 0.01]\<rparr> \<and>
   swipeDirection (processResults CONFIG \<lparr>multiHandLandmarks = Some [example_hand 0.8 0.01]\<rparr>
                     GestureDetector_new) = Some SwipeRight \<and>
   lastWristX (processResults CONFIG \<lparr>multiHandLandmarks = Some [example_hand 0.8 0.01]\<rparr>
                 GestureDetector_new) = 0.8"
proof -
  have h: "hasHand \<lparr>multiHandLandmarks = Some [example_hand 0.8 0.01]\<rparr>"
    by (simp add: hasHand_def)
  show ?thesis
    using h swipe_iff_threshold[OF h, of GestureDetector_new CONFIG]
    by (simp add: Let_def example_hand_def GestureDetector_new_def split: if_splits)
qed

section \<open>Callbacks without a hand\<close>

lemma round_ties_even_error: "\<bar>of_int (round_ties_even y) - y\<bar> \<le> 1 / 2"
  unfolding round_ties_even_def Let_def by (auto simp: abs_if) linarith+

lemma floor_log2_eq:
  assumes "2 powi k \<le> x" and "x < 2 powi (k + 1)"
  shows "\<lfloor>log 2 x\<rfloor> = k"
proof -
  have "0 < (2::real) powi k" by simp
  with assms(1) have x: "0 < x" by linarith
  have p: "(2::real) powr real_of_int k = 2 powi k"
          "(2::real) powr real_of_int (k + 1) = 2 powi (k + 1)"
    by (rule powr_real_of_int'; simp)+
  have "2 powr real_of_int k \<le> x \<and> x < 2 powr real_of_int (k + 1)"
    unfolding p using assms by simp
  then show ?thesis
    using floor_log_eq_powr_iff[of x 2 k] x by simp
qed

lemma binary64_eval:
  assumes "2 powi k \<le> \<bar>x\<bar>" and "\<bar>x\<bar> < 2 powi (k + 1)" and "- 1022 \<le> k"
  shows "binary64 x = 2 powi (k - 52) * of_int (round_ties_even (x / 2 powi (k - 52)))"
proof -
  have "0 < (2::real) powi k" by simp
  with assms(1) have "0 < \<bar>x\<bar>" by linarith
  then have "x \<noteq> 0" by simp
  moreover have "\<lfloor>log 2 \<bar>x\<bar>\<rfloor> = k" using assms(1,2) by (rule floor_log2_eq)
  ultimately show ?thesis using assms(3) by (simp add: binary64_def Let_def max_def)
qed

lemma binary64_error:
  assumes "\<bar>x\<bar> < 2"
  shows "\<bar>binary64 x - x\<bar> \<le> 1 / 2 ^ 53"
proof (cases "x = 0")
  case True
  then show ?thesis by (simp add: binary64_def)
next
  case False
  define e where "e = max \<lfloor>log 2 \<bar>x\<bar>\<rfloor> (- 1022)"
  define ulp :: real where "ulp = 2 powi (e - 52)"
  have "log 2 \<bar>x\<bar> < 1" using assms False by (simp add: log_less_iff)
  then have "\<lfloor>log 2 \<bar>x\<bar>\<rfloor> \<le> 0" by linarith
  then have e: "e \<le> 0" by (simp add: e_def)
  have pos: "0 < ulp" by (simp add: ulp_def)
  have "ulp \<le> 2 powi (- 52)" unfolding ulp_def using e by (intro power_int_increasing) simp_all
  then have small: "ulp \<le> 1 / 2 ^ 52" by simp
  have b: "binary64 x = ulp * of_int (round_ties_even (x / ulp))"
    using False by (simp add: binary64_def Let_def e_def ulp_def)
  have "binary64 x - x = ulp * (of_int (round_ties_even (x / ulp)) - x / ulp)"
    using pos by (simp add: b algebra_simps)
  then have "\<bar>binary64 x - x\<bar> = ulp * \<bar>of_int (round_ties_even (x / ulp)) - x / ulp\<bar>"
    using pos by (simp add: abs_mult)
  also have "\<dots> \<le> ulp * (1 / 2)"
    using pos round_ties_even_error[of "x / ulp"] by (intro mult_left_mono) simp_all
  also have "\<dots> \<le> 1 / 2 ^ 52 * (1 / 2)" using small by simp
  finally show ?thesis by simp
qed

lemma noHandCallback_exact:
  assumes "\<not> hasHand res"
  shows "processResults cfg res s = noHandCallback (\<lambda>v. v) cfg s"
  using assms
  by (simp add: processResults_def noHandCallback_def smoothValues_def smoothValues_rounded_def
      smoothStep_def Let_def)

lemma binary64_zero: "binary64 0 = 0"
  by (simp add: binary64_def)

lemma smoothStep_rest: "smoothStep binary64 f 0 0 = 0"
  by (simp add: smoothStep_def binary64_zero)

lemma binary64_half: "binary64 (1 / 2) = 1 / 2"
  by (subst binary64_eval[where k = "- 1"]) (simp_all add: round_ties_even_def)

lemma smoothStep_half: "smoothStep binary64 f (1 / 2) (1 / 2) = 1 / 2"
  by (simp add: smoothStep_def binary64_zero binary64_half)

lemma binary64_tenth: "binary64 (1 / 10) = 7205759403792794 / 2 ^ 56"
  by (subst binary64_eval[where k = "- 4"]) (simp_all add: round_ties_even_def)

lemma smoothStep_stalls:
  "smoothStep binary64 (7205759403792794 / 2 ^ 56) (1 / 2 + 1 / 2 ^ 51) (1 / 2) = 1 / 2 + 1 / 2 ^ 51"
proof -
  have d: "binary64 (1 / 2 - (1 / 2 + 1 / 2 ^ 51)) = - (1 / 2 ^ 51)"
    by (subst binary64_eval[where k = "- 51"]) (simp_all add: round_ties_even_def)
  have p: "binary64 (- (1 / 2 ^ 51) * (7205759403792794 / 2 ^ 56)) = - (7205759403792794 / 2 ^ 107)"
    by (subst binary64_eval[where k = "- 55"]) (simp_all add: round_ties_even_def)
  have r: "binary64 (1 / 2 + 1 / 2 ^ 51 + - (7205759403792794 / 2 ^ 107)) = 1 / 2 + 1 / 2 ^ 51"
    by (subst binary64_eval[where k = "- 1"]) (simp_all add: round_ties_even_def)
  show ?thesis unfolding smoothStep_def d p r ..
qed

lemma binary64_tiny: "binary64 (1 / 2 ^ 60) = 1 / 2 ^ 60"
  by (subst binary64_eval[where k = "- 60"]) (simp_all add: round_ties_even_def)

lemma smoothStep_never_moves: "smoothStep binary64 (1 / 2 ^ 60) 1 (1 / 2) = 1"
proof -
  have d: "binary64 (1 / 2 - 1) = - (1 / 2)"
    by (subst binary64_eval[where k = "- 1"]) (simp_all add: round_ties_even_def)
  have p: "binary64 (- (1 / 2) * (1 / 2 ^ 60)) = - (1 / 2 ^ 61)"
    by (subst binary64_eval[where k = "- 61"]) (simp_all add: round_ties_even_def)
  have r: "binary64 (1 + - (1 / 2 ^ 61)) = 1"
    by (subst binary64_eval[where k = "- 1"]) (simp_all add: round_ties_even_def)
  show ?thesis unfolding smoothStep_def d p r ..
qed

text \<open>
  Claim C8, as stated, fails in the arithmetic of the program. With the smoothing factor
  of \<open>CONFIG\<close>, a detector whose smoothed openness is \<open>1/2 + 1/2^51\<close> is left as it is by
  a callback without a hand, so the openness stays \<open>1/2^51\<close> away from 0.5 however many
  callbacks follow. And with the factor \<open>1/2^60\<close>, which lies in \<open>(0, 1]\<close>, an openness of 1
  never moves.
\<close>

theorem no_hand_convergence_counterexample:
  "binary64 (gestureSmoothing CONFIG) = 7205759403792794 / 2 ^ 56 \<and>
   noHandCallback binary64 CONFIG (GestureDetector_new\<lparr>handOpenness := 1 / 2 + 1 / 2 ^ 51\<rparr>) =
     GestureDetector_new\<lparr>handOpenness := 1 / 2 + 1 / 2 ^ 51\<rparr> \<and>
   binary64 (gestureSmoothing (CONFIG\<lparr>gestureSmoothing := 1 / 2 ^ 60\<rparr>)) = 1 / 2 ^ 60 \<and>
   noHandCallback binary64 (CONFIG\<lparr>gestureSmoothing := 1 / 2 ^ 60\<rparr>)
     (GestureDetector_new\<lparr>handOpenness := 1\<rparr>) = GestureDetector_new\<lparr>handOpenness := 1\<rparr>"
proof -
  have f1: "binary64 (gestureSmoothing CONFIG) = 7205759403792794 / 2 ^ 56"
    using binary64_tenth by (simp add: CONFIG_def)
  have f2: "binary64 (gestureSmoothing (CONFIG\<lparr>gestureSmoothing := 1 / 2 ^ 60\<rparr>)) = 1 / 2 ^ 60"
    using binary64_tiny by simp
  have s1: "noHandCallback binary64 CONFIG (GestureDetector_new\<lparr>handOpenness := 1 / 2 + 1 / 2 ^ 51\<rparr>) =
     GestureDetector_new\<lparr>handOpenness := 1 / 2 + 1 / 2 ^ 51\<rparr>"
    unfolding noHandCallback_def smoothValues_rounded_def Let_def f1
    using smoothStep_stalls smoothStep_rest[of "7205759403792794 / 2 ^ 56"]
      smoothStep_half[of "7205759403792794 / 2 ^ 56"]
    by (simp add: GestureDetector_new_def)
  have s2: "noHandCallback binary64 (CONFIG\<lparr>gestureSmoothing := 1 / 2 ^ 60\<rparr>)
     (GestureDetector_new\<lparr>handOpenness := 1\<rparr>) = GestureDetector_new\<lparr>handOpenness := 1\<rparr>"
    unfolding noHandCallback_def smoothValues_rounded_def Let_def f2
    using smoothStep_never_moves smoothStep_rest[of "1 / 2 ^ 60"] smoothStep_half[of "1 / 2 ^ 60"]
    by (simp add: GestureDetector_new_def)
  from f1 s1 f2 s2 show ?thesis by blast
qed

lemma power_small:
  fixes q c e :: real
  assumes "0 \<le> q" "q < 1" "0 < e" "0 \<le> c"
  shows "\<exists>n. \<forall>m\<ge>n. q ^ m * c < e"
proof -
  have "0 < e / (c + 1)" using assms by simp
  from real_arch_pow_inv[OF this assms(2)] obtain n where n: "q ^ n < e / (c + 1)" by blast
  have "\<forall>m\<ge>n. q ^ m * c < e"
  proof (intro allI impI)
    fix m assume "n \<le> m"
    then have "q ^ m \<le> q ^ n" using assms by (intro power_decreasing) simp_all
    with n have "q ^ m < e / (c + 1)" by linarith
    then have "q ^ m * (c + 1) < e" using assms by (simp add: pos_less_divide_eq)
    moreover have "q ^ m * c \<le> q ^ m * (c + 1)" using assms by (intro mult_left_mono) simp_all
    ultimately show "q ^ m * c < e" by linarith
  qed
  then show ?thesis by blast
qed

lemma smoothStep_binary64_contracts:
  assumes h: "0 \<le> h" "h \<le> 1" and f: "0 < f" "f \<le> 1"
  shows "\<bar>smoothStep binary64 f h (1 / 2) - 1 / 2\<bar> \<le> (1 - f) * \<bar>h - 1 / 2\<bar> + 3 / 2 ^ 53"
proof -
  define u :: real where "u = 1 / 2 ^ 53"
  define d where "d = binary64 (1 / 2 - h)"
  define p where "p = binary64 (d * f)"
  define r where "r = binary64 (h + p)"
  have u: "0 < u" "u \<le> 1 / 8" by (simp_all add: u_def)
  have a: "\<bar>h - 1 / 2\<bar> \<le> 1 / 2" using h by linarith
  have e1: "\<bar>d - (1 / 2 - h)\<bar> \<le> u"
    unfolding d_def u_def using h by (intro binary64_error) linarith
  then have db: "\<bar>d\<bar> \<le> 1 / 2 + u" using a by linarith
  have "\<bar>d * f\<bar> = \<bar>d\<bar> * f" using f by (simp add: abs_mult)
  also have "\<dots> \<le> \<bar>d\<bar> * 1" using f by (intro mult_left_mono) simp_all
  finally have dfb: "\<bar>d * f\<bar> \<le> 1 / 2 + u" using db by simp
  have e2: "\<bar>p - d * f\<bar> \<le> u"
    unfolding p_def using dfb u unfolding u_def by (intro binary64_error) linarith
  then have pb: "\<bar>p\<bar> \<le> 1 / 2 + 2 * u" using dfb by linarith
  have e3: "\<bar>r - (h + p)\<bar> \<le> u"
    unfolding r_def using pb h u unfolding u_def by (intro binary64_error) linarith
  have "\<bar>(d - (1 / 2 - h)) * f\<bar> = \<bar>d - (1 / 2 - h)\<bar> * f" using f by (simp add: abs_mult)
  also have "\<dots> \<le> u * 1" using e1 f u by (intro mult_mono) simp_all
  finally have e1f: "\<bar>(d - (1 / 2 - h)) * f\<bar> \<le> u" by simp
  have split: "r - 1 / 2 = (1 - f) * (h - 1 / 2) + (d - (1 / 2 - h)) * f + (p - d * f) + (r - (h + p))"
    by (simp add: field_simps)
  have "\<bar>r - 1 / 2\<bar> \<le> \<bar>(1 - f) * (h - 1 / 2)\<bar> + \<bar>(d - (1 / 2 - h)) * f\<bar> + \<bar>p - d * f\<bar> + \<bar>r - (h + p)\<bar>"
    unfolding split by linarith
  also have "\<bar>(1 - f) * (h - 1 / 2)\<bar> = (1 - f) * \<bar>h - 1 / 2\<bar>" using f by (simp add: abs_mult)
  finally have "\<bar>r - 1 / 2\<bar> \<le> (1 - f) * \<bar>h - 1 / 2\<bar> + 3 * u"
    using e1f e2 e3 by linarith
  moreover have "smoothStep binary64 f h (1 / 2) = r"
    by (simp add: smoothStep_def r_def p_def d_def)
  ultimately show ?thesis by (simp add: u_def)
qed

lemma noHandCallback_openness:
  "handOpenness (noHandCallback fl cfg s) =
     smoothStep fl (fl (gestureSmoothing cfg)) (handOpenness s) (1 / 2)"
  by (simp add: noHandCallback_def smoothValues_rounded_def Let_def)

lemma noHandCallback_iterated:
  fixes cfg s
  defines "f \<equiv> binary64 (gestureSmoothing cfg)"
  defines "H \<equiv> \<lambda>m. handOpenness ((noHandCallback binary64 cfg ^^ m) s)"
  assumes f: "1 / 2 ^ 50 \<le> f" "f \<le> 1" and h: "0 \<le> handOpenness s" "handOpenness s \<le> 1"
  shows "\<bar>H m - 1 / 2\<bar> \<le> 1 / 2 \<and>
         \<bar>H m - 1 / 2\<bar> \<le> 3 / 2 ^ 53 / f + (1 - f) ^ m * \<bar>handOpenness s - 1 / 2\<bar>"
proof (induction m)
  case 0
  have "0 < f" using f(1) by (rule less_le_trans[rotated]) simp
  then have "0 \<le> 3 / 2 ^ 53 / f" by simp
  moreover have "\<bar>handOpenness s - 1 / 2\<bar> \<le> 1 / 2" using h by linarith
  ultimately show ?case by (simp add: H_def)
next
  case (Suc m)
  have fpos: "0 < f" using f(1) by (rule less_le_trans[rotated]) simp
  from Suc have "\<bar>H m - 1 / 2\<bar> \<le> 1 / 2" by simp
  then have in01: "0 \<le> H m" "H m \<le> 1" by linarith+
  have step: "H (Suc m) = smoothStep binary64 f (H m) (1 / 2)"
    by (simp add: H_def f_def noHandCallback_openness)
  have c: "\<bar>H (Suc m) - 1 / 2\<bar> \<le> (1 - f) * \<bar>H m - 1 / 2\<bar> + 3 / 2 ^ 53"
    unfolding step using in01 fpos f(2) by (rule smoothStep_binary64_contracts)
  have q: "0 \<le> 1 - f" using f(2) by simp
  have "(1 - f) * \<bar>H m - 1 / 2\<bar> \<le> (1 - f) * (1 / 2)"
    using Suc q by (intro mult_left_mono) simp_all
  moreover have "3 / 2 ^ 53 \<le> f * (1 / 2)" using f(1) by simp
  ultimately have one: "\<bar>H (Suc m) - 1 / 2\<bar> \<le> 1 / 2" using c by (simp add: algebra_simps)
  have "(1 - f) * \<bar>H m - 1 / 2\<bar> \<le>
          (1 - f) * (3 / 2 ^ 53 / f + (1 - f) ^ m * \<bar>handOpenness s - 1 / 2\<bar>)"
    using Suc q by (intro mult_left_mono) simp_all
  also have "\<dots> = 3 / 2 ^ 53 / f - 3 / 2 ^ 53 + (1 - f) ^ Suc m * \<bar>handOpenness s - 1 / 2\<bar>"
    using fpos by (simp add: field_simps)
  finally have "\<bar>H (Suc m) - 1 / 2\<bar> \<le> 3 / 2 ^ 53 / f + (1 - f) ^ Suc m * \<bar>handOpenness s - 1 / 2\<bar>"
    using c by linarith
  with one show ?case by simp
qed

text \<open>
  Claim C8, amended. A callback without a hand sets \<open>handPresent\<close> to false, the openness
  target to 0.5 and the swipe to null, and moves the smoothed openness by one rounded
  smoothing step, after which its distance to 0.5 is at most \<open>1 - f\<close> times the distance
  before plus \<open>3/2^53\<close>. From an openness in \<open>[0, 1]\<close>, with a factor \<open>f\<close> between
  \<open>1/2^50\<close> and 1, for every \<open>e\<close> above \<open>3/2^53/f\<close> there is a number of such callbacks
  from which on the smoothed openness is closer than \<open>e\<close> to 0.5.
\<close>

theorem no_hand_idle_binary64:
  assumes "1 / 2 ^ 50 \<le> binary64 (gestureSmoothing cfg)" and "binary64 (gestureSmoothing cfg) \<le> 1"
    and "0 \<le> handOpenness s" and "handOpenness s \<le> 1"
    and "3 / 2 ^ 53 / binary64 (gestureSmoothing cfg) < e"
  shows "handPresent (noHandCallback binary64 cfg s) = False \<and>
         targetOpenness (noHandCallback binary64 cfg s) = 0.5 \<and>
         swipeDirection (noHandCallback binary64 cfg s) = None \<and>
         handOpenness (noHandCallback binary64 cfg s) =
           binary64 (handOpenness s +
             binary64 (binary64 (0.5 - handOpenness s) * binary64 (gestureSmoothing cfg))) \<and>
         \<bar>handOpenness (noHandCallback binary64 cfg s) - 0.5\<bar> \<le>
           (1 - binary64 (gestureSmoothing cfg)) * \<bar>handOpenness s - 0.5\<bar> + 3 / 2 ^ 53 \<and>
         (\<exists>n. \<forall>m\<ge>n. \<bar>handOpenness ((noHandCallback binary64 cfg ^^ m) s) - 0.5\<bar> < e)"
proof -
  let ?f = "binary64 (gestureSmoothing cfg)"
  have fpos: "0 < ?f" using assms(1) by (rule less_le_trans[rotated]) simp
  have one: "handPresent (noHandCallback binary64 cfg s) = False \<and>
         targetOpenness (noHandCallback binary64 cfg s) = 0.5 \<and>
         swipeDirection (noHandCallback binary64 cfg s) = None \<and>
         handOpenness (noHandCallback binary64 cfg s) =
           binary64 (handOpenness s + binary64 (binary64 (0.5 - handOpenness s) * ?f))"
    by (simp add: noHandCallback_def smoothValues_rounded_def smoothStep_def Let_def)
  have two: "\<bar>handOpenness (noHandCallback binary64 cfg s) - 0.5\<bar> \<le>
           (1 - ?f) * \<bar>handOpenness s - 0.5\<bar> + 3 / 2 ^ 53"
    using smoothStep_binary64_contracts[OF assms(3,4) fpos assms(2)]
    by (simp add: noHandCallback_openness)
  have gap: "0 < e - 3 / 2 ^ 53 / ?f" using assms(5) by simp
  have q: "0 \<le> 1 - ?f" "1 - ?f < 1" using assms(2) fpos by simp_all
  from power_small[OF q gap, of "\<bar>handOpenness s - 1 / 2\<bar>"] obtain n where
    n: "\<forall>m\<ge>n. (1 - ?f) ^ m * \<bar>handOpenness s - 1 / 2\<bar> < e - 3 / 2 ^ 53 / ?f" by auto
  have "\<forall>m\<ge>n. \<bar>handOpenness ((noHandCallback binary64 cfg ^^ m) s) - 0.5\<bar> < e"
  proof (intro allI impI)
    fix m assume "n \<le> m"
    with n have "(1 - ?f) ^ m * \<bar>handOpenness s - 1 / 2\<bar> < e - 3 / 2 ^ 53 / ?f" by simp
    moreover have "\<bar>handOpenness ((noHandCallback binary64 cfg ^^ m) s) - 1 / 2\<bar> \<le>
        3 / 2 ^ 53 / ?f + (1 - ?f) ^ m * \<bar>handOpenness s - 1 / 2\<bar>"
      using noHandCallback_iterated[OF assms(1,2,3,4), of m] by simp
    ultimately show "\<bar>handOpenness ((noHandCallback binary64 cfg ^^ m) s) - 0.5\<bar> < e" by simp
  qed
  with one two show ?thesis by blast
qed

theorem no_hand_idle_binary64_witness:
  "1 / 2 ^ 50 \<le> binary64 (gestureSmoothing CONFIG) \<and> binary64 (gestureSmoothing CONFIG) \<le> 1 \<and>
   0 \<le> handOpenness (GestureDetector_new\<lparr>handOpenness := 1\<rparr>) \<and>
   handOpenness (GestureDetector_new\<lparr>handOpenness := 1\<rparr>) \<le> 1 \<and>
   3 / 2 ^ 53 / binary64 (gestureSmoothing CONFIG) < 1 / 1000 \<and>
   handPresent (noHandCallback binary64 CONFIG (GestureDetector_new\<lparr>handOpenness := 1\<rparr>)) = False \<and>
   targetOpenness (noHandCallback binary64 CONFIG (GestureDetector_new\<lparr>handOpenness := 1\<rparr>)) = 0.5 \<and>
   (\<exists>n. \<forall>m\<ge>n. \<bar>handOpenness ((noHandCallback binary64 CONFIG ^^ m)
                     (GestureDetector_new\<lparr>handOpenness := 1\<rparr>)) - 0.5\<bar> < 1 / 1000)"
proof -
  have f: "binary64 (gestureSmoothing CONFIG) = 7205759403792794 / 2 ^ 56"
    using binary64_tenth by (simp add: CONFIG_def)
  have a: "1 / 2 ^ 50 \<le> binary64 (gestureSmoothing CONFIG)" "binary64 (gestureSmoothing CONFIG) \<le> 1"
    unfolding f by simp_all
  have b: "0 \<le> handOpenness (GestureDetector_new\<lparr>handOpenness := 1\<rparr>)"
          "handOpenness (GestureDetector_new\<lparr>handOpenness := 1\<rparr>) \<le> 1" by simp_all
  have c: "3 / 2 ^ 53 / binary64 (gestureSmoothing CONFIG) < 1 / 1000"
    unfolding f by simp
  show ?thesis
    using a b c no_hand_idle_binary64[OF a b c] by simp
qed






end
